theory Spec2Isabelle
  imports Complex_Main "HOL-Library.Multiset" "HOL-Library.Product_Lexorder"
begin

section \<open>Data model\<close>

text \<open>
  The notebook \<^verbatim>\<open>4_dimension_reduction.ipynb\<close> holds two functions,
  \<^verbatim>\<open>process_heart_disease_data\<close> and \<^verbatim>\<open>feature_selection_and_split\<close>. Both are
  sequences of calls into pandas, numpy and scikit-learn. The calls are modelled by what
  the libraries do about shapes, row labels, column names and raised exceptions. What the
  libraries compute from the values is a parameter of the model, collected in the record
  \<open>libraries\<close>: the outcome of reading a file, the mean, the principal-component scores,
  the forest's importance scores, the order of equal scores, the draws of the seeded
  generator, and every rejection that depends on the values. Every theorem below holds
  for all of them.

  A cell is \<open>'a option\<close>: \<open>None\<close> is \<^verbatim>\<open>np.nan\<close> (an empty CSV field), \<open>Some v\<close> any other
  value \<open>v\<close>. The type \<open>'a\<close> of values is left open.
\<close>

datatype error =
    FileNotFoundError | ParserError | EmptyDataError | KeyError | ValueError
  | InvalidIndexError | OSError | LinAlgError | OtherError string

text \<open>
  A row label of a frame. \<open>Pos i\<close> is the label that equals the integer \<open>i\<close>: the labels
  of a RangeIndex, and any label read from a file that is this number. \<open>Key c\<close> is any
  other label (pandas takes the first field of every record as the row label when the
  records have one field more than the header).
\<close>

datatype 'a label = Pos nat | Key "'a option"

text \<open>
  A \<^verbatim>\<open>pd.DataFrame\<close>: the column names and the rows, each row with its label.
  A \<^verbatim>\<open>pd.Series\<close>: a name and the labelled values.
\<close>

record 'a dataframe =
  df_columns :: "string list"
  df_rows :: "('a label \<times> 'a option list) list"

record 'a series =
  s_name :: string
  s_rows :: "('a label \<times> 'a option) list"

definition df_index :: "'a dataframe \<Rightarrow> 'a label list" where
  "df_index df = map fst (df_rows df)"

definition df_values :: "'a dataframe \<Rightarrow> 'a option list list" where
  "df_values df = map snd (df_rows df)"

text \<open>
  A written file is a CSV table, the header row and the records, one list of fields per
  line; \<open>Partial\<close> is a file that a failed write has cut off after the header and these
  records. The file system maps a path to its file. A write to a path succeeds, or is
  refused before anything is written, or breaks after some records.
\<close>

datatype 'a csv_file =
    Csv "string list" "'a option list list"
  | Partial "string list" "'a option list list"

datatype write_fault = Refused | Breaks nat

record 'a filesystem =
  files :: "string \<rightharpoonup> 'a csv_file"
  write_fault :: "string \<Rightarrow> write_fault option"

text \<open>
  The parameters:
  \<^item> \<open>read_csv path\<close>: what \<^verbatim>\<open>pd.read_csv(path)\<close> returns or raises when the function is
    called; in a returned frame the column names are different from each other (pandas
    renames a repeated \<open>quality\<close> to \<open>quality.1\<close>) and every row has one cell per column;
  \<^item> \<open>imputer_rejects X\<close>: the exception with which \<^verbatim>\<open>SimpleImputer\<close> rejects the values of
    \<open>X\<close> (an infinite or non-numeric cell), if any;
  \<^item> \<open>np_mean xs\<close>: the mean of a non-empty list of values as \<^verbatim>\<open>SimpleImputer\<close> computes
    it, \<open>None\<close> when it is not a finite number;
  \<^item> \<open>pca_randomized n_samples n_features n_components\<close>: whether
    \<^verbatim>\<open>svd_solver='auto'\<close> picks the randomized solver for this shape;
  \<^item> \<open>pca_solve g n_components X\<close>: the exception that the solver raises on \<open>X\<close>, or the
    scores by row and component. \<open>g\<close> is the state of numpy's global generator, handed
    over when the randomized solver runs, since \<^verbatim>\<open>PCA(n_components=6)\<close> is created without
    \<^verbatim>\<open>random_state\<close>;
  \<^item> \<open>rf_fit n X y\<close>: the exception with which the forest of \<open>n\<close> trees rejects the values
    of \<open>X\<close> and \<open>y\<close> (a cell out of the range of float32, labels that are no
    classification targets), or \<^verbatim>\<open>feature_importances_\<close> by column after fitting with
    \<^verbatim>\<open>random_state=42\<close>;
  \<^item> \<open>argsort_tie xs i\<close>: the rank that \<^verbatim>\<open>np.argsort\<close> gives position \<open>i\<close> among the
    positions of \<open>xs\<close> with an equal value;
  \<^item> \<open>rng_interval n i\<close>: the draw that \<^verbatim>\<open>RandomState(42)\<close> makes at step \<open>i\<close> of
    shuffling \<open>n\<close> items.
\<close>

record ('a, 'b) libraries =
  read_csv :: "string \<Rightarrow> error + 'a dataframe"
  imputer_rejects :: "'a option list list \<Rightarrow> error option"
  np_mean :: "'a list \<Rightarrow> 'a option"
  pca_randomized :: "nat \<Rightarrow> nat \<Rightarrow> nat \<Rightarrow> bool"
  pca_solve :: "nat option \<Rightarrow> nat \<Rightarrow> 'a option list list \<Rightarrow> error + (nat \<Rightarrow> nat \<Rightarrow> 'a option)"
  rf_fit :: "int \<Rightarrow> 'a option list list \<Rightarrow> 'a option list \<Rightarrow> error + (nat \<Rightarrow> 'b)"
  argsort_tie :: "'b list \<Rightarrow> nat \<Rightarrow> nat"
  rng_interval :: "nat \<Rightarrow> nat \<Rightarrow> nat"

section \<open>pandas and numpy operations\<close>

text \<open>Python's \<^verbatim>\<open>str\<close> of a non-negative integer, used by the f-strings.\<close>

definition digit_char :: "nat \<Rightarrow> char" where
  "digit_char d = char_of (48 + d)"

fun str_nat :: "nat \<Rightarrow> string" where
  "str_nat n = (if n < 10 then [digit_char n] else str_nat (n div 10) @ [digit_char (n mod 10)])"

declare str_nat.simps [simp del]

text \<open>The shape of a two-dimensional array held as a list of rows.\<close>

definition shape :: "'c list list \<Rightarrow> nat \<times> nat" where
  "shape X = (length X, case X of [] \<Rightarrow> 0 | r # _ \<Rightarrow> length r)"

definition has_nan :: "'a option list list \<Rightarrow> bool" where
  "has_nan X = (None \<in> set (concat X))"

text \<open>The position of the first column with a given name.\<close>

fun col_position :: "string \<Rightarrow> string list \<Rightarrow> nat option" where
  "col_position c [] = None"
| "col_position c (x # xs) = (if x = c then Some 0 else map_option Suc (col_position c xs))"

text \<open>\<^verbatim>\<open>df[c]\<close>: the column as a Series; KeyError when there is no such column.\<close>

definition getitem :: "'a dataframe \<Rightarrow> string \<Rightarrow> error + 'a series" where
  "getitem df c =
     (case col_position c (df_columns df) of
        None \<Rightarrow> Inl KeyError
      | Some k \<Rightarrow> Inr \<lparr>s_name = c, s_rows = map (\<lambda>(l, r). (l, r ! k)) (df_rows df)\<rparr>)"

text \<open>\<^verbatim>\<open>df.drop([c], axis=1)\<close>: KeyError when there is no such column.\<close>

definition drop_columns :: "'a dataframe \<Rightarrow> string \<Rightarrow> error + 'a dataframe" where
  "drop_columns df c =
     (if c \<notin> set (df_columns df) then Inl KeyError
      else Inr \<lparr>df_columns = filter (\<lambda>n. n \<noteq> c) (df_columns df),
                df_rows = map (\<lambda>(l, r). (l, map snd (filter (\<lambda>(n, v). n \<noteq> c) (zip (df_columns df) r))))
                              (df_rows df)\<rparr>)"

text \<open>The labels of a RangeIndex of length \<open>n\<close>.\<close>

definition RangeIndex :: "nat \<Rightarrow> 'a label list" where
  "RangeIndex n = map Pos [0..<n]"

text \<open>
  \<^verbatim>\<open>pd.DataFrame(data, columns=cols)\<close> on a two-dimensional array: ValueError when the
  array's width is not the number of names; the rows get a fresh RangeIndex.
\<close>

definition DataFrame :: "'a option list list \<Rightarrow> string list \<Rightarrow> error + 'a dataframe" where
  "DataFrame data cols =
     (if \<exists>r \<in> set data. length r \<noteq> length cols then Inl ValueError
      else Inr \<lparr>df_columns = cols, df_rows = zip (RangeIndex (length data)) data\<rparr>)"

text \<open>
  \<^verbatim>\<open>pd.DataFrame(s, columns=cols)\<close> on a Series: the Series keeps its labels, the column
  named as the Series holds its values and any other requested column is empty.
\<close>

definition DataFrame_of_Series :: "'a series \<Rightarrow> string list \<Rightarrow> 'a dataframe" where
  "DataFrame_of_Series s cols =
     \<lparr>df_columns = cols,
      df_rows = map (\<lambda>(l, v). (l, map (\<lambda>c. if c = s_name s then v else None) cols)) (s_rows s)\<rparr>"

text \<open>\<^verbatim>\<open>df.reset_index(drop=True)\<close>: the labels become \<open>0, 1, ...\<close>.\<close>

definition reset_index :: "'a dataframe \<Rightarrow> 'a dataframe" where
  "reset_index df = df\<lparr>df_rows := zip (RangeIndex (length (df_rows df))) (df_values df)\<rparr>"

text \<open>
  \<^verbatim>\<open>pd.concat([a, b], axis=1)\<close>: the columns of \<open>a\<close> followed by those of \<open>b\<close>, the rows
  joined on their labels. When both frames carry the same labels in the same order the
  rows are put side by side. Otherwise both frames are reindexed to the union of the
  labels (those of \<open>a\<close>, then the new ones of \<open>b\<close>): InvalidIndexError when a frame has a
  label twice, and a row is empty in the columns of the frame that lacks its label.
\<close>

definition row_at :: "'a dataframe \<Rightarrow> 'a label \<Rightarrow> 'a option list" where
  "row_at df l =
     (case map_of (df_rows df) l of
        Some r \<Rightarrow> r
      | None \<Rightarrow> replicate (length (df_columns df)) None)"

definition concat_axis1 :: "'a dataframe \<Rightarrow> 'a dataframe \<Rightarrow> error + 'a dataframe" where
  "concat_axis1 a b =
     (if df_index a = df_index b
      then Inr \<lparr>df_columns = df_columns a @ df_columns b,
                df_rows = map (\<lambda>((l, r), (l', r')). (l, r @ r')) (zip (df_rows a) (df_rows b))\<rparr>
      else if \<not> (distinct (df_index a) \<and> distinct (df_index b)) then Inl InvalidIndexError
      else Inr \<lparr>df_columns = df_columns a @ df_columns b,
                df_rows = map (\<lambda>l. (l, row_at a l @ row_at b l))
                              (df_index a @ filter (\<lambda>l. l \<notin> set (df_index a)) (df_index b))\<rparr>)"

text \<open>\<^verbatim>\<open>df.iloc[positions]\<close>: the rows at the given positions, with their labels.\<close>

definition iloc :: "'a dataframe \<Rightarrow> nat list \<Rightarrow> 'a dataframe" where
  "iloc df positions = df\<lparr>df_rows := map (\<lambda>p. df_rows df ! p) positions\<rparr>"

text \<open>
  \<^verbatim>\<open>df.to_csv(path, index=False)\<close>: the header row is the column names, each record is
  the cells of one row, the labels are not written; an existing file is replaced. A
  write that fails raises OSError and leaves the path as it was, when it was refused, or
  holding a file cut off after some records.
\<close>

definition to_csv :: "'a dataframe \<Rightarrow> string \<Rightarrow> 'a filesystem \<Rightarrow> error option \<times> 'a filesystem" where
  "to_csv df path fs =
     (case write_fault fs path of
        None \<Rightarrow> (None, fs\<lparr>files := (files fs)(path \<mapsto> Csv (df_columns df) (df_values df))\<rparr>)
      | Some Refused \<Rightarrow> (Some OSError, fs)
      | Some (Breaks k) \<Rightarrow>
          (Some OSError,
           fs\<lparr>files := (files fs)(path \<mapsto> Partial (df_columns df) (take k (df_values df)))\<rparr>))"

text \<open>
  \<^verbatim>\<open>np.argsort(xs)\<close>: the positions of \<open>xs\<close> in ascending order of their values. numpy
  leaves the order of positions with equal values open; they are ordered by the
  parameter \<open>tie\<close>, so that every order that numpy can return is the result for some \<open>tie\<close>.
\<close>

definition argsort :: "(('b::linorder) list \<Rightarrow> nat \<Rightarrow> nat) \<Rightarrow> 'b list \<Rightarrow> nat list" where
  "argsort tie xs = sort_key (\<lambda>i. (xs ! i, tie xs i)) [0..<length xs]"

section \<open>scikit-learn operations\<close>

text \<open>
  \<^verbatim>\<open>SimpleImputer(missing_values=np.nan, strategy='mean').fit_transform(df)\<close>.
  ValueError when the frame has no row or no column; otherwise the values may be
  rejected. Fitting computes one statistic per column: the mean of the column's observed
  (non-missing) values, or \<^verbatim>\<open>nan\<close> when the column has none or the mean is not finite.
  Transforming discards the columns whose statistic is \<^verbatim>\<open>nan\<close> and fills every missing
  cell of the other columns with the column's statistic.
\<close>

definition column :: "'c list list \<Rightarrow> nat \<Rightarrow> 'c list" where
  "column X j = map (\<lambda>r. r ! j) X"

definition observed :: "'a option list \<Rightarrow> 'a list" where
  "observed c = concat (map (\<lambda>x. case x of None \<Rightarrow> [] | Some v \<Rightarrow> [v]) c)"

definition statistics :: "('a list \<Rightarrow> 'a option) \<Rightarrow> 'a option list list \<Rightarrow> nat \<Rightarrow> 'a option" where
  "statistics mean X j =
     (if observed (column X j) = [] then None else mean (observed (column X j)))"

definition valid_columns :: "('a list \<Rightarrow> 'a option) \<Rightarrow> 'a option list list \<Rightarrow> nat \<Rightarrow> nat list" where
  "valid_columns mean X d = filter (\<lambda>j. statistics mean X j \<noteq> None) [0..<d]"

definition SimpleImputer_fit_transform ::
  "('a, 'b) libraries \<Rightarrow> 'a dataframe \<Rightarrow> error + 'a option list list" where
  "SimpleImputer_fit_transform lib df =
     (let X = df_values df; d = length (df_columns df) in
      if X = [] \<or> d = 0 then Inl ValueError
      else case imputer_rejects lib X of
        Some e \<Rightarrow> Inl e
      | None \<Rightarrow>
          Inr (map (\<lambda>r. map (\<lambda>j. case r ! j of
                                   Some v \<Rightarrow> Some v
                                 | None \<Rightarrow> statistics (np_mean lib) X j)
                              (valid_columns (np_mean lib) X d)) X))"

text \<open>
  \<^verbatim>\<open>PCA(n_components=k).fit_transform(X)\<close> with numpy's global generator in state \<open>g\<close>:
  ValueError when \<open>X\<close> has no row, no column or a \<^verbatim>\<open>nan\<close>, and when \<open>k\<close> exceeds
  \<open>min(n_samples, n_features)\<close>; then the solver runs, with the generator when it is the
  randomized one. The result has one row per row of \<open>X\<close> and \<open>k\<close> columns.
\<close>

definition PCA_fit_transform ::
  "('a, 'b) libraries \<Rightarrow> nat \<Rightarrow> nat \<Rightarrow> 'a option list list \<Rightarrow> error + 'a option list list" where
  "PCA_fit_transform lib g n_components X =
     (case shape X of (n_samples, n_features) \<Rightarrow>
        if n_samples = 0 \<or> n_features = 0 \<or> has_nan X then Inl ValueError
        else if \<not> n_components \<le> min n_samples n_features then Inl ValueError
        else case pca_solve lib
                    (if pca_randomized lib n_samples n_features n_components then Some g else None)
                    n_components X of
          Inl e \<Rightarrow> Inl e
        | Inr score \<Rightarrow>
            Inr (map (\<lambda>i. map (\<lambda>k. score i k) [0..<n_components]) [0..<n_samples]))"

text \<open>
  \<^verbatim>\<open>RandomForestClassifier(n_estimators=n, random_state=42).fit(X, y)\<close> followed by
  \<^verbatim>\<open>feature_importances_\<close>: ValueError when \<open>n < 1\<close>, when \<open>X\<close> has no row, no column
  or a \<^verbatim>\<open>nan\<close>, and when \<open>y\<close> has another length than \<open>X\<close> or a \<^verbatim>\<open>nan\<close>; otherwise the
  values may be rejected. The importances have one entry per column of \<open>X\<close>.
\<close>

definition RandomForestClassifier_fit ::
  "('a, 'b) libraries \<Rightarrow> int \<Rightarrow> 'a option list list \<Rightarrow> 'a option list \<Rightarrow> error + 'b list" where
  "RandomForestClassifier_fit lib n_estimators X y =
     (case shape X of (n_samples, n_features) \<Rightarrow>
        if n_estimators < 1 then Inl ValueError
        else if n_samples = 0 \<or> n_features = 0 \<or> has_nan X then Inl ValueError
        else if length y \<noteq> n_samples \<or> None \<in> set y then Inl ValueError
        else case rf_fit lib n_estimators X y of
          Inl e \<Rightarrow> Inl e
        | Inr importance \<Rightarrow> Inr (map importance [0..<n_features]))"

text \<open>
  \<^verbatim>\<open>RandomState(42).permutation(n)\<close>: \<open>0, ..., n - 1\<close> shuffled in place, for \<open>i\<close> from
  \<open>n - 1\<close> down to \<open>1\<close> swapping the entries at \<open>i\<close> and at a drawn position in \<open>[0, i]\<close>.
  The draw is the parameter's value reduced modulo \<open>i + 1\<close>, so that it is in range for
  every parameter.
\<close>

definition swap :: "nat list \<Rightarrow> nat \<Rightarrow> nat \<Rightarrow> nat list" where
  "swap x i j = x[i := x ! j, j := x ! i]"

fun shuffle :: "(nat \<Rightarrow> nat) \<Rightarrow> nat \<Rightarrow> nat list \<Rightarrow> nat list" where
  "shuffle draw 0 x = x"
| "shuffle draw (Suc i) x = shuffle draw i (swap x (Suc i) (draw (Suc i) mod Suc (Suc i)))"

definition permutation :: "(nat \<Rightarrow> nat \<Rightarrow> nat) \<Rightarrow> nat \<Rightarrow> nat list" where
  "permutation rng n = shuffle (rng n) (n - 1) [0..<n]"

text \<open>
  \<^verbatim>\<open>train_test_split(X, y, test_size=0.1, random_state=42)\<close>. The sizes are
  \<open>n_test = ceil(0.1 * n_samples)\<close> and \<open>n_train = n_samples - n_test\<close>, ValueError when
  the train set would be empty. (In double precision \<open>0.1 * n\<close> is exactly \<open>n / 10\<close> when
  \<open>10\<close> divides \<open>n\<close>, so the ceiling is that of the exact quotient.) The test rows are
  the first \<open>n_test\<close> positions of the permutation, the train rows the next \<open>n_train\<close>;
  both frames are cut at the same positions.
\<close>

definition validate_shuffle_split :: "nat \<Rightarrow> error + nat \<times> nat" where
  "validate_shuffle_split n_samples =
     (let n_test = (n_samples + 9) div 10;
          n_train = n_samples - n_test
      in if n_train = 0 then Inl ValueError else Inr (n_train, n_test))"

definition train_test_split ::
  "(nat \<Rightarrow> nat \<Rightarrow> nat) \<Rightarrow> 'a dataframe \<Rightarrow> 'a dataframe
     \<Rightarrow> error + 'a dataframe \<times> 'a dataframe \<times> 'a dataframe \<times> 'a dataframe" where
  "train_test_split rng X y =
     (let n_samples = length (df_rows X) in
      if length (df_rows y) \<noteq> n_samples then Inl ValueError
      else case validate_shuffle_split n_samples of
        Inl e \<Rightarrow> Inl e
      | Inr (n_train, n_test) \<Rightarrow>
          let p = permutation rng n_samples;
              ind_test = take n_test p;
              ind_train = take n_train (drop n_test p)
          in Inr (iloc X ind_train, iloc X ind_test, iloc y ind_train, iloc y ind_test))"

section \<open>The two pipelines\<close>

type_synonym 'a result =
  "'a dataframe \<times> 'a dataframe \<times> 'a dataframe \<times> 'a dataframe \<times> 'a dataframe \<times> 'a dataframe"

text \<open>
  Both functions end with the same statements, up to the names of the variables (cell 1
  from \<^verbatim>\<open>combined_df = pd.concat(...)\<close> to the \<^verbatim>\<open>return\<close>, cell 4 likewise): join
  features and labels, write the full table, split, join and write the train and the
  test table, return the six frames. An exception ends the function and leaves the files
  as they are at that moment.
\<close>

definition save_and_split ::
  "(nat \<Rightarrow> nat \<Rightarrow> nat) \<Rightarrow> 'a dataframe \<Rightarrow> 'a dataframe \<Rightarrow> string \<Rightarrow> 'a filesystem
     \<Rightarrow> (error + 'a result) \<times> 'a filesystem" where
  "save_and_split rng X_df y_df output_filename_prefix fs =
     (case concat_axis1 X_df y_df of
        Inl e \<Rightarrow> (Inl e, fs)
      | Inr combined_df \<Rightarrow>
      case to_csv combined_df (output_filename_prefix @ ''.csv'') fs of
        (Some e, fs1) \<Rightarrow> (Inl e, fs1)
      | (None, fs1) \<Rightarrow>
      case train_test_split rng X_df y_df of
        Inl e \<Rightarrow> (Inl e, fs1)
      | Inr (X_train, X_test, y_train, y_test) \<Rightarrow>
      case concat_axis1 X_train y_train of
        Inl e \<Rightarrow> (Inl e, fs1)
      | Inr train_df \<Rightarrow>
      case concat_axis1 X_test y_test of
        Inl e \<Rightarrow> (Inl e, fs1)
      | Inr test_df \<Rightarrow>
      case to_csv train_df (output_filename_prefix @ ''_train.csv'') fs1 of
        (Some e, fs2) \<Rightarrow> (Inl e, fs2)
      | (None, fs2) \<Rightarrow>
      case to_csv test_df (output_filename_prefix @ ''_test.csv'') fs2 of
        (Some e, fs3) \<Rightarrow> (Inl e, fs3)
      | (None, fs3) \<Rightarrow> (Inr (X_df, y_df, X_train, X_test, y_train, y_test), fs3))"

text \<open>
  \<^verbatim>\<open>process_heart_disease_data\<close> up to \<^verbatim>\<open>y_df\<close>: load, take the label column, impute
  the features, project on 6 components, name the columns \<open>PC1\<close> to \<open>PC6\<close>, and give the
  labels a fresh RangeIndex. \<open>g\<close> is the state of numpy's global generator at the call.
\<close>

definition pca_frames ::
  "('a, 'b) libraries \<Rightarrow> nat \<Rightarrow> string \<Rightarrow> error + 'a dataframe \<times> 'a dataframe" where
  "pca_frames lib g input_filename =
     (case read_csv lib input_filename of Inl e \<Rightarrow> Inl e | Inr wine_quality \<Rightarrow>
      case getitem wine_quality ''quality'' of Inl e \<Rightarrow> Inl e | Inr y \<Rightarrow>
      case drop_columns wine_quality ''quality'' of Inl e \<Rightarrow> Inl e | Inr features \<Rightarrow>
      case SimpleImputer_fit_transform lib features of Inl e \<Rightarrow> Inl e | Inr X \<Rightarrow>
      case PCA_fit_transform lib g 6 X of Inl e \<Rightarrow> Inl e | Inr X_pca \<Rightarrow>
      case DataFrame X_pca (map (\<lambda>i. ''PC'' @ str_nat (i + 1)) [0..<6]) of
        Inl e \<Rightarrow> Inl e
      | Inr X_pca_df \<Rightarrow>
          Inr (X_pca_df, reset_index (DataFrame_of_Series y [''quality''])))"

definition process_heart_disease_data ::
  "('a, 'b) libraries \<Rightarrow> nat \<Rightarrow> 'a filesystem \<Rightarrow> string \<Rightarrow> string
     \<Rightarrow> (error + 'a result) \<times> 'a filesystem" where
  "process_heart_disease_data lib g fs input_filename output_filename_prefix =
     (case pca_frames lib g input_filename of
        Inl e \<Rightarrow> (Inl e, fs)
      | Inr (X_pca_df, y_df) \<Rightarrow>
          save_and_split (rng_interval lib) X_pca_df y_df output_filename_prefix fs)"

text \<open>
  \<^verbatim>\<open>feature_selection_and_split\<close> up to \<^verbatim>\<open>y_df\<close>: load, impute the features, take the
  label column, fit the forest, sort the columns by importance in descending order, keep
  the first half, name the columns \<open>Feature_1\<close> to \<open>Feature_k\<close>. The labels keep the row
  labels of the loaded frame. The forest and the split are seeded, so that the global
  generator is not used.
\<close>

definition selected_frames ::
  "('a, 'b::linorder) libraries \<Rightarrow> string \<Rightarrow> int \<Rightarrow> error + 'a dataframe \<times> 'a dataframe" where
  "selected_frames lib input_filename n_estimators_num =
     (case read_csv lib input_filename of Inl e \<Rightarrow> Inl e | Inr wine_quality \<Rightarrow>
      case drop_columns wine_quality ''quality'' of Inl e \<Rightarrow> Inl e | Inr features \<Rightarrow>
      case SimpleImputer_fit_transform lib features of Inl e \<Rightarrow> Inl e | Inr X \<Rightarrow>
      case getitem wine_quality ''quality'' of Inl e \<Rightarrow> Inl e | Inr y \<Rightarrow>
      case RandomForestClassifier_fit lib n_estimators_num X (map snd (s_rows y)) of
        Inl e \<Rightarrow> Inl e
      | Inr importances \<Rightarrow>
      let indices = rev (argsort (argsort_tie lib) importances);
          num_features = length indices div 2;
          X_selected = map (\<lambda>r. map (\<lambda>j. r ! j) (take num_features indices)) X in
      case DataFrame X_selected (map (\<lambda>i. ''Feature_'' @ str_nat (i + 1)) [0..<num_features]) of
        Inl e \<Rightarrow> Inl e
      | Inr X_selected_df \<Rightarrow>
          Inr (X_selected_df, DataFrame_of_Series y [''quality'']))"

definition feature_selection_and_split ::
  "('a, 'b::linorder) libraries \<Rightarrow> 'a filesystem \<Rightarrow> string \<Rightarrow> string \<Rightarrow> int
     \<Rightarrow> (error + 'a result) \<times> 'a filesystem" where
  "feature_selection_and_split lib fs input_filename output_filename_prefix n_estimators_num =
     (case selected_frames lib input_filename n_estimators_num of
        Inl e \<Rightarrow> (Inl e, fs)
      | Inr (X_selected_df, y_df) \<Rightarrow>
          save_and_split (rng_interval lib) X_selected_df y_df output_filename_prefix fs)"

section \<open>Notions used in the statements\<close>

text \<open>
  The columns that \<^verbatim>\<open>feature_selection_and_split\<close> keeps, as positions in the imputed
  matrix: \<^verbatim>\<open>indices[:num_features]\<close> of the source (lemma \<open>selected_indices_source\<close>).
\<close>

definition selected_indices :: "(('b::linorder) list \<Rightarrow> nat \<Rightarrow> nat) \<Rightarrow> 'b list \<Rightarrow> nat list" where
  "selected_indices tie importances =
     (let indices = rev (argsort tie importances);
          num_features = length indices div 2
      in take num_features indices)"

text \<open>
  The file that \<^verbatim>\<open>pd.concat([a, b], axis=1).to_csv(path, index=False)\<close> writes when
  nothing fails, and the table whose records are, row by row, the cells of a row of \<open>X\<close>
  followed by the cells of the row of \<open>y\<close> at the same position.
\<close>

definition joined_table :: "'a dataframe \<Rightarrow> 'a dataframe \<Rightarrow> 'a csv_file option" where
  "joined_table a b =
     (case concat_axis1 a b of
        Inl e \<Rightarrow> None
      | Inr c \<Rightarrow> Some (Csv (df_columns c) (df_values c)))"

definition table_of :: "'a dataframe \<Rightarrow> 'a dataframe \<Rightarrow> 'a csv_file" where
  "table_of X y =
     Csv (df_columns X @ [''quality'']) (map (\<lambda>(r, v). r @ v) (zip (df_values X) (df_values y)))"

text \<open>
  A complete CSV file with the given header row in which every record has one field per
  name of the header: no field is left for the row label.
\<close>

definition csv_with_header :: "string list \<Rightarrow> 'a csv_file option \<Rightarrow> bool" where
  "csv_with_header header f =
     (case f of
        Some (Csv h rs) \<Rightarrow> h = header \<and> (\<forall>r \<in> set rs. length r = length header)
      | _ \<Rightarrow> False)"

definition records :: "'a csv_file option \<Rightarrow> 'a option list list" where
  "records f = (case f of Some (Csv h rs) \<Rightarrow> rs | Some (Partial h rs) \<Rightarrow> rs | None \<Rightarrow> [])"

text \<open>
  What a pipeline that returned \<open>(X, y, X_train, X_test, y_train, y_test)\<close> for the prefix
  \<open>P\<close> has done to the files. The three paths are different, no other path has changed,
  and each of the three holds, whatever it held before, a complete file: the join of the
  feature frame with the label frame, with the names of the feature columns followed by
  \<open>quality\<close> as header and one field per name in every record. When the label frame
  carries the row labels of the feature frame, the records are the rows of the features
  each followed by its label, and the records of the train and of the test file together
  are those of the full file.
\<close>

definition three_files_written ::
  "string \<Rightarrow> 'a result \<Rightarrow> 'a filesystem \<Rightarrow> 'a filesystem \<Rightarrow> bool" where
  "three_files_written P res fs fs' =
     (case res of (X, y, X_train, X_test, y_train, y_test) \<Rightarrow>
        distinct [P @ ''.csv'', P @ ''_train.csv'', P @ ''_test.csv''] \<and>
        (\<forall>p. p \<notin> {P @ ''.csv'', P @ ''_train.csv'', P @ ''_test.csv''} \<longrightarrow>
             files fs' p = files fs p) \<and>
        write_fault fs' = write_fault fs \<and>
        files fs' (P @ ''.csv'') = joined_table X y \<and>
        files fs' (P @ ''_train.csv'') = joined_table X_train y_train \<and>
        files fs' (P @ ''_test.csv'') = joined_table X_test y_test \<and>
        csv_with_header (df_columns X @ [''quality'']) (files fs' (P @ ''.csv'')) \<and>
        csv_with_header (df_columns X @ [''quality'']) (files fs' (P @ ''_train.csv'')) \<and>
        csv_with_header (df_columns X @ [''quality'']) (files fs' (P @ ''_test.csv'')) \<and>
        (df_index y = df_index X \<longrightarrow>
           files fs' (P @ ''.csv'') = Some (table_of X y) \<and>
           files fs' (P @ ''_train.csv'') = Some (table_of X_train y_train) \<and>
           files fs' (P @ ''_test.csv'') = Some (table_of X_test y_test) \<and>
           length (records (files fs' (P @ ''.csv''))) = length (df_rows X) \<and>
           mset (records (files fs' (P @ ''_train.csv''))) +
             mset (records (files fs' (P @ ''_test.csv''))) =
             mset (records (files fs' (P @ ''.csv'')))))"

text \<open>
  What a failed invocation leaves. \<open>tables_to_write\<close> are the tables that the common tail
  of the pipelines writes to \<open>P.csv\<close>, \<open>P_train.csv\<close> and \<open>P_test.csv\<close>, in this order, as
  far as they can be built from the two frames. \<open>left_after completed broken\<close> is the file
  system in which the first \<open>completed\<close> of them have been written in full, the next one,
  if \<open>broken\<close> is \<open>Some k\<close>, has been cut off after \<open>k\<close> records, and nothing else has changed.
\<close>

definition tables_to_write ::
  "(nat \<Rightarrow> nat \<Rightarrow> nat) \<Rightarrow> 'a dataframe \<Rightarrow> 'a dataframe \<Rightarrow> 'a dataframe list" where
  "tables_to_write rng X y =
     (case concat_axis1 X y of
        Inl e \<Rightarrow> []
      | Inr combined_df \<Rightarrow>
          combined_df #
          (case train_test_split rng X y of
             Inl e \<Rightarrow> []
           | Inr (X_train, X_test, y_train, y_test) \<Rightarrow>
               (case concat_axis1 X_train y_train of
                  Inl e \<Rightarrow> []
                | Inr train_df \<Rightarrow>
                    (case concat_axis1 X_test y_test of
                       Inl e \<Rightarrow> []
                     | Inr test_df \<Rightarrow> [train_df, test_df]))))"

fun write_all ::
  "(string \<times> 'a dataframe) list \<Rightarrow> (string \<rightharpoonup> 'a csv_file) \<Rightarrow> (string \<rightharpoonup> 'a csv_file)" where
  "write_all [] m = m"
| "write_all ((p, t) # ws) m = write_all ws (m(p \<mapsto> Csv (df_columns t) (df_values t)))"

definition left_after ::
  "nat \<Rightarrow> nat option \<Rightarrow> string \<Rightarrow> 'a dataframe list \<Rightarrow> 'a filesystem \<Rightarrow> 'a filesystem" where
  "left_after completed broken P tables fs =
     (let ws = zip [P @ ''.csv'', P @ ''_train.csv'', P @ ''_test.csv''] tables;
          m = write_all (take completed ws) (files fs)
      in fs\<lparr>files :=
              (case broken of
                 None \<Rightarrow> m
               | Some k \<Rightarrow>
                   (case drop completed ws of
                      [] \<Rightarrow> m
                    | (p, t) # _ \<Rightarrow> m(p \<mapsto> Partial (df_columns t) (take k (df_values t)))))\<rparr>)"

section \<open>A small concrete instance\<close>

text \<open>
  Rational numbers, with the exact mean as long as it is within a bound (the bound stands
  for the largest finite floating-point number), scores and importances that are simple
  functions of the data, the order of positions for equal importances, and a fixed
  sequence of draws: an instance of the parameters on which the definitions can be
  evaluated. The automatic choice of the solver is the rule of scikit-learn before
  version 1.5.
\<close>

definition toy_mean :: "rat list \<Rightarrow> rat option" where
  "toy_mean xs =
     (let m = sum_list xs / of_nat (length xs) in if \<bar>m\<bar> \<le> 1000000 then Some m else None)"

definition toy_randomized :: "nat \<Rightarrow> nat \<Rightarrow> nat \<Rightarrow> bool" where
  "toy_randomized n_samples n_features n_components =
     (500 < max n_samples n_features \<and> 5 * n_components < 4 * min n_samples n_features)"

definition toy_solve ::
  "nat option \<Rightarrow> nat \<Rightarrow> rat option list list \<Rightarrow> error + (nat \<Rightarrow> nat \<Rightarrow> rat option)" where
  "toy_solve g n_components X =
     Inr (\<lambda>i k. Some ((case X ! i ! k of None \<Rightarrow> 0 | Some v \<Rightarrow> v) - of_nat k +
                      (case g of None \<Rightarrow> 0 | Some s \<Rightarrow> of_nat s / 1000)))"

definition toy_fit ::
  "int \<Rightarrow> rat option list list \<Rightarrow> rat option list \<Rightarrow> error + (nat \<Rightarrow> rat)" where
  "toy_fit n X y =
     Inr (\<lambda>j. case hd X ! j of None \<Rightarrow> 0 | Some v \<Rightarrow> if even n then v else - v)"

definition toy_draw :: "nat \<Rightarrow> nat \<Rightarrow> nat" where
  "toy_draw n i = 7 * i + n"

text \<open>
  The files that the instance reads. \<open>wine.csv\<close>: seven rows with six feature columns,
  one cell missing.
\<close>

definition toy_wine :: "rat dataframe" where
  "toy_wine =
     \<lparr>df_columns = [''a'', ''b'', ''c'', ''d'', ''e'', ''f'', ''quality''],
      df_rows = zip (RangeIndex 7)
        [[Some 1, Some 2, Some 3, Some 4, Some 5, Some 6, Some 5],
         [Some 2, None, Some 1, Some 0, Some 7, Some 6, Some 6],
         [Some 3, Some 4, Some 3, Some 9, Some 5, Some 1, Some 5],
         [Some 4, Some 2, Some 8, Some 4, Some 2, Some 6, Some 7],
         [Some 5, Some 6, Some 3, Some 4, Some 5, Some 3, Some 5],
         [Some 6, Some 2, Some 0, Some 1, Some 5, Some 6, Some 6],
         [Some 7, Some 1, Some 3, Some 4, Some 4, Some 2, Some 5]]\<rparr>"

text \<open>\<open>small.csv\<close>: two rows with two feature columns.\<close>

definition toy_small :: "rat dataframe" where
  "toy_small =
     \<lparr>df_columns = [''a'', ''quality'', ''b''],
      df_rows = zip (RangeIndex 2) [[Some 1, Some 5, Some 2], [Some 3, Some 6, None]]\<rparr>"

text \<open>\<open>one.csv\<close>: one row. \<open>noq.csv\<close>: no \<open>quality\<close> column.\<close>

definition toy_one :: "rat dataframe" where
  "toy_one =
     \<lparr>df_columns = [''a'', ''b'', ''quality''],
      df_rows = zip (RangeIndex 1) [[Some 1, Some 2, Some 5]]\<rparr>"

definition toy_noq :: "rat dataframe" where
  "toy_noq = \<lparr>df_columns = [''a'', ''b''], df_rows = zip (RangeIndex 1) [[Some 1, Some 2]]\<rparr>"

text \<open>
  \<open>gap.csv\<close>: three rows with four feature columns, of which the second is entirely
  missing.
\<close>

definition toy_gap :: "rat dataframe" where
  "toy_gap =
     \<lparr>df_columns = [''a'', ''b'', ''c'', ''d'', ''quality''],
      df_rows = zip (RangeIndex 3)
        [[Some 4, None, Some 9, Some 1, Some 5],
         [Some 2, None, Some 3, None, Some 6],
         [Some 6, None, Some 3, Some 3, Some 5]]\<rparr>"

text \<open>
  \<open>labelled.csv\<close>: the file with the header \<^verbatim>\<open>a,b,quality\<close> and the records
  \<^verbatim>\<open>1,10,11,5\<close> and \<^verbatim>\<open>0,20,21,6\<close>. The records have one field more than the header,
  so pandas takes the first field of each record as its row label.
\<close>

definition toy_labelled :: "rat dataframe" where
  "toy_labelled =
     \<lparr>df_columns = [''a'', ''b'', ''quality''],
      df_rows = [(Pos 1, [Some 10, Some 11, Some 5]), (Pos 0, [Some 20, Some 21, Some 6])]\<rparr>"

definition toy_read_csv :: "string \<Rightarrow> error + rat dataframe" where
  "toy_read_csv path =
     (if path = ''wine.csv'' then Inr toy_wine
      else if path = ''small.csv'' then Inr toy_small
      else if path = ''one.csv'' then Inr toy_one
      else if path = ''noq.csv'' then Inr toy_noq
      else if path = ''gap.csv'' then Inr toy_gap
      else if path = ''labelled.csv'' then Inr toy_labelled
      else if path = ''empty.csv'' then Inl EmptyDataError
      else if path = ''bad.csv'' then Inl ParserError
      else Inl FileNotFoundError)"

definition toy :: "(rat, rat) libraries" where
  "toy = \<lparr>read_csv = toy_read_csv, imputer_rejects = (\<lambda>X. None), np_mean = toy_mean,
          pca_randomized = toy_randomized, pca_solve = toy_solve, rf_fit = toy_fit,
          argsort_tie = (\<lambda>xs i. i), rng_interval = toy_draw\<rparr>"

text \<open>
  The same libraries on data for which the automatic choice is the randomized solver.
\<close>

definition toy_large :: "(rat, rat) libraries" where
  "toy_large = toy\<lparr>pca_randomized := (\<lambda>n_samples n_features n_components. True)\<rparr>"

text \<open>
  A file system with an older \<open>out.csv\<close> and an unrelated file, in which every write
  succeeds; and one in which the write to \<open>out_train.csv\<close> breaks after two records.
\<close>

definition toy_fs :: "rat filesystem" where
  "toy_fs =
     \<lparr>files = [''out.csv'' \<mapsto> Csv [''old''] [[Some 0]], ''notes.csv'' \<mapsto> Csv [''n''] []],
      write_fault = (\<lambda>p. None)\<rparr>"

definition toy_faulty_fs :: "rat filesystem" where
  "toy_faulty_fs =
     toy_fs\<lparr>write_fault := (\<lambda>p. if p = ''out_train.csv'' then Some (Breaks 2) else None)\<rparr>"




definition toy_pca_result :: "rat result" where
  "toy_pca_result = projr (fst (process_heart_disease_data toy 0 toy_fs ''wine.csv'' ''out''))"

definition toy_selected_result :: "rat result" where
  "toy_selected_result =
     projr (fst (feature_selection_and_split toy toy_fs ''wine.csv'' ''out'' 250))"

definition toy_selected_result' :: "rat result" where
  "toy_selected_result' =
     projr (fst (feature_selection_and_split toy toy_fs ''wine.csv'' ''out'' 251))"

section \<open>Properties of the library operations\<close>

lemma length_swap: "length (swap x i j) = length x"
  by (simp add: swap_def)

lemma mset_swap_in_range: "i < length x \<Longrightarrow> j < length x \<Longrightarrow> mset (swap x i j) = mset x"
  unfolding swap_def using mset_swap [of j x i] by simp

lemma length_shuffle: "length (shuffle draw i x) = length x"
  by (induction i arbitrary: x) (simp_all add: length_swap)

lemma mset_shuffle: "i < length x \<Longrightarrow> mset (shuffle draw i x) = mset x"
proof (induction i arbitrary: x)
  case 0
  then show ?case by simp
next
  case (Suc i)
  have j: "draw (Suc i) mod Suc (Suc i) < length x"
    using Suc.prems by (meson Suc_leI le_trans mod_less_divisor not_less zero_less_Suc)
  have "mset (shuffle draw i (swap x (Suc i) (draw (Suc i) mod Suc (Suc i)))) =
        mset (swap x (Suc i) (draw (Suc i) mod Suc (Suc i)))"
    using Suc.prems by (intro Suc.IH) (simp add: length_swap)
  then show ?case
    using Suc.prems j by (simp add: mset_swap_in_range)
qed

lemma length_permutation: "length (permutation rng n) = n"
  by (simp add: permutation_def length_shuffle)

lemma mset_permutation: "mset (permutation rng n) = mset [0..<n]"
proof (cases n)
  case 0
  then show ?thesis by (simp add: permutation_def)
next
  case (Suc m)
  then show ?thesis
    unfolding permutation_def by (intro mset_shuffle) simp
qed

lemma set_permutation: "set (permutation rng n) = {0..<n}"
  using mset_permutation [of rng n] by (metis mset_eq_setD set_upt)

lemma distinct_permutation: "distinct (permutation rng n)"
  using mset_permutation [of rng n] by (metis distinct_upt mset_eq_imp_distinct_iff)

lemma mset_map_permutation:
  "mset (map (\<lambda>p. xs ! p) (permutation rng (length xs))) = mset xs"
proof -
  have "mset (map (\<lambda>p. xs ! p) (permutation rng (length xs))) =
        image_mset (\<lambda>p. xs ! p) (mset (permutation rng (length xs)))"
    by simp
  also have "\<dots> = image_mset (\<lambda>p. xs ! p) (mset [0..<length xs])"
    by (simp only: mset_permutation)
  also have "\<dots> = mset (map (\<lambda>p. xs ! p) [0..<length xs])"
    by simp
  also have "\<dots> = mset xs"
    by (simp add: map_nth)
  finally show ?thesis .
qed

lemma mset_map_split:
  "mset (map (\<lambda>p. xs ! p) (drop k (permutation rng (length xs)))) +
   mset (map (\<lambda>p. xs ! p) (take k (permutation rng (length xs)))) = mset xs"
proof -
  let ?p = "permutation rng (length xs)"
  have "mset (map (\<lambda>p. xs ! p) (drop k ?p)) + mset (map (\<lambda>p. xs ! p) (take k ?p))
        = mset (map (\<lambda>p. xs ! p) (take k ?p @ drop k ?p))"
    by (simp only: map_append mset_append add.commute)
  also have "\<dots> = mset xs"
    by (simp only: append_take_drop_id mset_map_permutation)
  finally show ?thesis .
qed

text \<open>What a split that returns has done.\<close>

lemma train_test_split_Inr:
  assumes "train_test_split rng X y = Inr (X_train, X_test, y_train, y_test)"
  defines "n \<equiv> length (df_rows X)"
  defines "n_test \<equiv> (n + 9) div 10"
  shows "length (df_rows y) = n" and "n_test < n"
    and "X_train = iloc X (drop n_test (permutation rng n))"
    and "X_test = iloc X (take n_test (permutation rng n))"
    and "y_train = iloc y (drop n_test (permutation rng n))"
    and "y_test = iloc y (take n_test (permutation rng n))"
proof -
  have a: "length (df_rows y) = n \<and> n_test < n"
    using assms(1) unfolding train_test_split_def validate_shuffle_split_def n_def n_test_def
    by (auto simp: Let_def split: if_splits)
  have t: "take (n - n_test) (drop n_test (permutation rng n)) = drop n_test (permutation rng n)"
    by (simp add: length_permutation)
  show "length (df_rows y) = n" "n_test < n" using a by simp_all
  show "X_train = iloc X (drop n_test (permutation rng n))"
    "X_test = iloc X (take n_test (permutation rng n))"
    "y_train = iloc y (drop n_test (permutation rng n))"
    "y_test = iloc y (take n_test (permutation rng n))"
    using assms(1) a t unfolding train_test_split_def validate_shuffle_split_def n_def n_test_def
    by (auto simp: Let_def split: if_splits)
qed

lemma mset_iloc_split:
  "mset (df_rows (iloc df (drop k (permutation rng (length (df_rows df)))))) +
   mset (df_rows (iloc df (take k (permutation rng (length (df_rows df)))))) = mset (df_rows df)"
  using mset_map_split [of "df_rows df" k rng] by (simp add: iloc_def)

lemma to_csv_None:
  "to_csv df path fs = (None, fs') \<longleftrightarrow>
     write_fault fs path = None \<and>
     fs' = fs\<lparr>files := (files fs)(path \<mapsto> Csv (df_columns df) (df_values df))\<rparr>"
  by (auto simp: to_csv_def split: option.splits write_fault.splits)

lemma to_csv_Some:
  "to_csv df path fs = (Some e, fs') \<longleftrightarrow>
     e = OSError \<and>
     (case write_fault fs path of
        None \<Rightarrow> False
      | Some Refused \<Rightarrow> fs' = fs
      | Some (Breaks k) \<Rightarrow>
          fs' = fs\<lparr>files := (files fs)(path \<mapsto> Partial (df_columns df) (take k (df_values df)))\<rparr>)"
  by (auto simp: to_csv_def split: option.splits write_fault.splits)

lemma write_fault_to_csv: "write_fault (snd (to_csv df path fs)) = write_fault fs"
  by (simp add: to_csv_def split: option.splits write_fault.splits)

lemma save_and_split_Inr:
  assumes "fst (save_and_split rng X y P fs) = Inr res"
  shows "\<exists>X_train X_test y_train y_test combined_df train_df test_df.
     train_test_split rng X y = Inr (X_train, X_test, y_train, y_test) \<and>
     res = (X, y, X_train, X_test, y_train, y_test) \<and>
     concat_axis1 X y = Inr combined_df \<and>
     concat_axis1 X_train y_train = Inr train_df \<and>
     concat_axis1 X_test y_test = Inr test_df \<and>
     write_fault fs (P @ ''.csv'') = None \<and> write_fault fs (P @ ''_train.csv'') = None \<and>
     write_fault fs (P @ ''_test.csv'') = None \<and>
     snd (save_and_split rng X y P fs) =
       fs\<lparr>files := (files fs)
         (P @ ''.csv'' \<mapsto> Csv (df_columns combined_df) (df_values combined_df),
          P @ ''_train.csv'' \<mapsto> Csv (df_columns train_df) (df_values train_df),
          P @ ''_test.csv'' \<mapsto> Csv (df_columns test_df) (df_values test_df))\<rparr>"
proof -
  from assms obtain c where c: "concat_axis1 X y = Inr c"
    unfolding save_and_split_def by (auto split: sum.splits)
  from assms c obtain fs1 where w1: "to_csv c (P @ ''.csv'') fs = (None, fs1)"
    unfolding save_and_split_def by (auto split: sum.splits prod.splits option.splits)
  from assms c w1 obtain X_train X_test y_train y_test where
    s: "train_test_split rng X y = Inr (X_train, X_test, y_train, y_test)"
    unfolding save_and_split_def by (auto split: sum.splits prod.splits option.splits)
  from assms c w1 s obtain tr where tr: "concat_axis1 X_train y_train = Inr tr"
    unfolding save_and_split_def by (auto split: sum.splits prod.splits option.splits)
  from assms c w1 s tr obtain te where te: "concat_axis1 X_test y_test = Inr te"
    unfolding save_and_split_def by (auto split: sum.splits prod.splits option.splits)
  from assms c w1 s tr te obtain fs2 where w2: "to_csv tr (P @ ''_train.csv'') fs1 = (None, fs2)"
    unfolding save_and_split_def by (auto split: sum.splits prod.splits option.splits)
  from assms c w1 s tr te w2 obtain fs3 where w3: "to_csv te (P @ ''_test.csv'') fs2 = (None, fs3)"
    unfolding save_and_split_def by (auto split: sum.splits prod.splits option.splits)
  have r: "save_and_split rng X y P fs = (Inr (X, y, X_train, X_test, y_train, y_test), fs3)"
    unfolding save_and_split_def by (simp add: c w1 s tr te w2 w3)
  from w1 have f1: "write_fault fs (P @ ''.csv'') = None"
    and fs1: "fs1 = fs\<lparr>files := (files fs)(P @ ''.csv'' \<mapsto> Csv (df_columns c) (df_values c))\<rparr>"
    by (simp_all add: to_csv_None)
  from w2 have f2: "write_fault fs1 (P @ ''_train.csv'') = None"
    and fs2: "fs2 = fs1\<lparr>files := (files fs1)(P @ ''_train.csv'' \<mapsto> Csv (df_columns tr) (df_values tr))\<rparr>"
    by (simp_all add: to_csv_None)
  from w3 have f3: "write_fault fs2 (P @ ''_test.csv'') = None"
    and fs3: "fs3 = fs2\<lparr>files := (files fs2)(P @ ''_test.csv'' \<mapsto> Csv (df_columns te) (df_values te))\<rparr>"
    by (simp_all add: to_csv_None)
  have "res = (X, y, X_train, X_test, y_train, y_test)"
    using assms r by simp
  moreover have "snd (save_and_split rng X y P fs) =
       fs\<lparr>files := (files fs)
         (P @ ''.csv'' \<mapsto> Csv (df_columns c) (df_values c),
          P @ ''_train.csv'' \<mapsto> Csv (df_columns tr) (df_values tr),
          P @ ''_test.csv'' \<mapsto> Csv (df_columns te) (df_values te))\<rparr>"
    unfolding r by (simp add: fs1 fs2 fs3)
  moreover have "write_fault fs (P @ ''_train.csv'') = None" "write_fault fs (P @ ''_test.csv'') = None"
    using f2 f3 by (simp_all add: fs1 fs2)
  ultimately show ?thesis
    using s c tr te f1 by blast
qed

lemma col_position_None: "col_position c cs = None \<longleftrightarrow> c \<notin> set cs"
  by (induction cs) auto

lemma col_position_Some: "col_position c cs = Some k \<Longrightarrow> k < length cs \<and> cs ! k = c"
  by (induction cs arbitrary: k) (auto split: if_splits)

lemma length_RangeIndex: "length (RangeIndex n) = n"
  by (simp add: RangeIndex_def)

lemma distinct_RangeIndex: "distinct (RangeIndex n)"
  by (simp add: RangeIndex_def distinct_map inj_on_def)

lemma RangeIndex_nth: "i < n \<Longrightarrow> RangeIndex n ! i = Pos i"
  by (simp add: RangeIndex_def)

lemma df_index_zip: "length ls = length rs \<Longrightarrow> df_index \<lparr>df_columns = cs, df_rows = zip ls rs\<rparr> = ls"
  by (simp add: df_index_def)

lemma df_values_zip: "length ls = length rs \<Longrightarrow> df_values \<lparr>df_columns = cs, df_rows = zip ls rs\<rparr> = rs"
  by (simp add: df_values_def)

lemma length_imputed:
  "SimpleImputer_fit_transform lib df = Inr X \<Longrightarrow> length X = length (df_rows df) \<and> X \<noteq> []"
  by (auto simp: SimpleImputer_fit_transform_def Let_def df_values_def
      split: if_splits option.splits)

lemma drop_columns_rows:
  "drop_columns df c = Inr features \<Longrightarrow>
     length (df_rows features) = length (df_rows df) \<and> df_index features = df_index df \<and>
     c \<in> set (df_columns df) \<and> df_columns features = filter (\<lambda>n. n \<noteq> c) (df_columns df)"
  by (auto simp: drop_columns_def df_index_def split: if_splits)

lemma getitem_Inr:
  "getitem df c = Inr y \<longleftrightarrow>
     (\<exists>q. col_position c (df_columns df) = Some q \<and>
          y = \<lparr>s_name = c, s_rows = map (\<lambda>(l, r). (l, r ! q)) (df_rows df)\<rparr>)"
  by (auto simp: getitem_def split: option.splits)

lemma pc_names:
  "map (\<lambda>i. ''PC'' @ str_nat (i + 1)) [0..<6] = [''PC1'', ''PC2'', ''PC3'', ''PC4'', ''PC5'', ''PC6'']"
  by code_simp

lemma PCA_fit_transform_Inr:
  assumes "PCA_fit_transform lib g k X = Inr X_pca"
  shows "k \<le> length X \<and> k \<le> snd (shape X) \<and> X \<noteq> [] \<and>
     (\<exists>score. pca_solve lib (if pca_randomized lib (length X) (snd (shape X)) k then Some g else None)
                 k X = Inr score \<and>
        X_pca = map (\<lambda>i. map (\<lambda>c. score i c) [0..<k]) [0..<length X])"
  using assms
  by (auto simp: PCA_fit_transform_def shape_def split: if_splits prod.splits sum.splits)

lemma pca_frames_Inr:
  assumes "pca_frames lib g inp = Inr (X_df, y_df)"
  shows "\<exists>wq q features X score.
     read_csv lib inp = Inr wq \<and> col_position ''quality'' (df_columns wq) = Some q \<and>
     drop_columns wq ''quality'' = Inr features \<and>
     SimpleImputer_fit_transform lib features = Inr X \<and>
     length X = length (df_rows wq) \<and> 6 \<le> length X \<and> 6 \<le> snd (shape X) \<and>
     pca_solve lib (if pca_randomized lib (length X) (snd (shape X)) 6 then Some g else None) 6 X
       = Inr score \<and>
     X_df = \<lparr>df_columns = [''PC1'', ''PC2'', ''PC3'', ''PC4'', ''PC5'', ''PC6''],
            df_rows = zip (RangeIndex (length X))
              (map (\<lambda>i. map (\<lambda>c. score i c) [0..<6]) [0..<length X])\<rparr> \<and>
     y_df = \<lparr>df_columns = [''quality''],
            df_rows = zip (RangeIndex (length X)) (map (\<lambda>r. [r ! q]) (df_values wq))\<rparr>"
proof -
  from assms obtain wq y feats X X_pca where
    r: "read_csv lib inp = Inr wq" and g: "getitem wq ''quality'' = Inr y"
    and d: "drop_columns wq ''quality'' = Inr feats"
    and i: "SimpleImputer_fit_transform lib feats = Inr X"
    and p: "PCA_fit_transform lib g 6 X = Inr X_pca"
    and f: "DataFrame X_pca (map (\<lambda>i. ''PC'' @ str_nat (i + 1)) [0..<6]) = Inr X_df"
    and y: "y_df = reset_index (DataFrame_of_Series y [''quality''])"
    unfolding pca_frames_def by (auto split: sum.splits)
  from g obtain q where q: "col_position ''quality'' (df_columns wq) = Some q"
    and ys: "y = \<lparr>s_name = ''quality'', s_rows = map (\<lambda>(l, r). (l, r ! q)) (df_rows wq)\<rparr>"
    by (auto simp: getitem_Inr)
  have lX: "length X = length (df_rows wq)"
    using length_imputed [OF i] drop_columns_rows [OF d] by simp
  from PCA_fit_transform_Inr [OF p] obtain score where
    p6: "6 \<le> length X" "6 \<le> snd (shape X)"
    and sc: "pca_solve lib (if pca_randomized lib (length X) (snd (shape X)) 6 then Some g else None) 6 X
       = Inr score"
    and Xp: "X_pca = map (\<lambda>i. map (\<lambda>c. score i c) [0..<6]) [0..<length X]"
    by auto
  from f have Xdf: "X_df = \<lparr>df_columns = [''PC1'', ''PC2'', ''PC3'', ''PC4'', ''PC5'', ''PC6''],
            df_rows = zip (RangeIndex (length X))
              (map (\<lambda>i. map (\<lambda>c. score i c) [0..<6]) [0..<length X])\<rparr>"
    unfolding pc_names Xp by (auto simp: DataFrame_def split: if_splits)
  have ydf: "y_df = \<lparr>df_columns = [''quality''],
            df_rows = zip (RangeIndex (length X)) (map (\<lambda>r. [r ! q]) (df_values wq))\<rparr>"
    unfolding y ys
    by (simp add: reset_index_def DataFrame_of_Series_def df_values_def lX o_def split_def)
  show ?thesis
    using r q d i lX p6 sc Xdf ydf by blast
qed

lemma sorted_map_fst:
  fixes f :: "'c \<Rightarrow> 'b::linorder" and t :: "'c \<Rightarrow> nat"
  assumes "sorted (map (\<lambda>i. (f i, t i)) xs)"
  shows "sorted (map f xs)"
proof -
  have "sorted_wrt (\<lambda>x y. (f x, t x) \<le> (f y, t y)) xs"
    using assms by (simp add: sorted_map)
  then have "sorted_wrt (\<lambda>x y. f x \<le> f y) xs"
    by (rule sorted_wrt_mono_rel [rotated]) auto
  then show ?thesis
    by (simp add: sorted_map)
qed

lemma length_argsort: "length (argsort tie xs) = length xs"
  by (simp add: argsort_def)

lemma mset_argsort: "mset (argsort tie xs) = mset [0..<length xs]"
  by (simp add: argsort_def)

lemma sorted_argsort: "sorted (map (\<lambda>i. xs ! i) (argsort tie xs))"
proof -
  have "sorted (map (\<lambda>i. (xs ! i, tie xs i)) (argsort tie xs))"
    unfolding argsort_def by (rule sorted_sort_key)
  then show ?thesis
    by (rule sorted_map_fst)
qed

lemma distinct_argsort: "distinct (argsort tie xs)"
  using mset_argsort [of tie xs] by (metis distinct_upt mset_eq_imp_distinct_iff)

lemma set_argsort: "set (argsort tie xs) = {0..<length xs}"
  by (simp add: argsort_def)

lemma selected_indices_eq:
  "selected_indices tie xs = rev (drop (length xs - length xs div 2) (argsort tie xs))"
  by (simp add: selected_indices_def Let_def take_rev length_argsort)

lemma length_selected_indices: "length (selected_indices tie xs) = length xs div 2"
  by (simp add: selected_indices_eq length_argsort)

lemma distinct_selected_indices: "distinct (selected_indices tie xs)"
  by (simp add: selected_indices_eq distinct_argsort)

lemma set_selected_indices: "set (selected_indices tie xs) \<subseteq> {0..<length xs}"
  using set_drop_subset [of "length xs - length xs div 2" "argsort tie xs"]
  by (simp add: selected_indices_eq set_argsort)

lemma sorted_selected_indices: "sorted (rev (map (\<lambda>i. xs ! i) (selected_indices tie xs)))"
proof -
  have "sorted (drop (length xs - length xs div 2) (map (\<lambda>i. xs ! i) (argsort tie xs)))"
    using sorted_argsort [of xs tie] by (rule sorted_wrt_drop)
  then show ?thesis
    by (simp add: selected_indices_eq rev_map drop_map)
qed

lemma selected_indices_top:
  assumes "j \<in> set (selected_indices tie xs)" and "j' < length xs"
    and "j' \<notin> set (selected_indices tie xs)"
  shows "xs ! j' \<le> xs ! j"
proof -
  let ?k = "length xs - length xs div 2"
  let ?a = "argsort tie xs"
  have split: "?a = take ?k ?a @ drop ?k ?a" by simp
  have j: "j \<in> set (drop ?k ?a)"
    using assms(1) by (simp add: selected_indices_eq)
  have "j' \<in> set ?a" using assms(2) by (simp add: set_argsort)
  then have "j' \<in> set (take ?k ?a) \<union> set (drop ?k ?a)"
    by (metis split set_append)
  then have j': "j' \<in> set (take ?k ?a)"
    using assms(3) by (simp add: selected_indices_eq)
  have "sorted (map (\<lambda>i. xs ! i) (take ?k ?a) @ map (\<lambda>i. xs ! i) (drop ?k ?a))"
    using sorted_argsort [of xs tie] by (metis split map_append)
  then show ?thesis
    using j j' by (auto simp: sorted_append)
qed

lemma selected_indices_source:
  "length (rev (argsort tie xs)) div 2 = length (selected_indices tie xs)"
  "take (length (selected_indices tie xs)) (rev (argsort tie xs)) = selected_indices tie xs"
  by (simp_all add: selected_indices_def Let_def length_argsort)

lemma RandomForestClassifier_fit_Inr:
  assumes "RandomForestClassifier_fit lib n X y = Inr importances"
  shows "length importances = snd (shape X) \<and> 1 \<le> n \<and> X \<noteq> [] \<and> length y = length X \<and>
     (\<exists>importance. rf_fit lib n X y = Inr importance \<and>
        importances = map importance [0..<snd (shape X)])"
  using assms
  by (auto simp: RandomForestClassifier_fit_def shape_def split: if_splits prod.splits sum.splits)

lemma selected_frames_Inr:
  assumes "selected_frames lib inp n_est = Inr (X_df, y_df)"
  shows "\<exists>wq q features X importances.
     read_csv lib inp = Inr wq \<and> col_position ''quality'' (df_columns wq) = Some q \<and>
     drop_columns wq ''quality'' = Inr features \<and>
     SimpleImputer_fit_transform lib features = Inr X \<and>
     length X = length (df_rows wq) \<and>
     RandomForestClassifier_fit lib n_est X (map (\<lambda>r. r ! q) (df_values wq)) = Inr importances \<and>
     length importances = snd (shape X) \<and>
     X_df = \<lparr>df_columns = map (\<lambda>i. ''Feature_'' @ str_nat (i + 1)) [0..<snd (shape X) div 2],
            df_rows = zip (RangeIndex (length X))
              (map (\<lambda>r. map (\<lambda>j. r ! j) (selected_indices (argsort_tie lib) importances)) X)\<rparr> \<and>
     y_df = \<lparr>df_columns = [''quality''],
            df_rows = zip (df_index wq) (map (\<lambda>r. [r ! q]) (df_values wq))\<rparr>"
proof -
  from assms obtain wq y feats X imps where
    r: "read_csv lib inp = Inr wq" and g: "getitem wq ''quality'' = Inr y"
    and d: "drop_columns wq ''quality'' = Inr feats"
    and i: "SimpleImputer_fit_transform lib feats = Inr X"
    and p: "RandomForestClassifier_fit lib n_est X (map snd (s_rows y)) = Inr imps"
    and f: "DataFrame (map (\<lambda>r. map (\<lambda>j. r ! j) (selected_indices (argsort_tie lib) imps)) X)
              (map (\<lambda>i. ''Feature_'' @ str_nat (i + 1))
                 [0..<length (selected_indices (argsort_tie lib) imps)]) = Inr X_df"
    and y: "y_df = DataFrame_of_Series y [''quality'']"
    unfolding selected_frames_def Let_def selected_indices_source
    by (auto split: sum.splits)
  from g obtain q where q: "col_position ''quality'' (df_columns wq) = Some q"
    and ys: "y = \<lparr>s_name = ''quality'', s_rows = map (\<lambda>(l, r). (l, r ! q)) (df_rows wq)\<rparr>"
    by (auto simp: getitem_Inr)
  have lX: "length X = length (df_rows wq)"
    using length_imputed [OF i] drop_columns_rows [OF d] by simp
  have yv: "map snd (s_rows y) = map (\<lambda>r. r ! q) (df_values wq)"
    by (simp add: ys df_values_def o_def split_def)
  have li: "length imps = snd (shape X)"
    using RandomForestClassifier_fit_Inr [OF p] by simp
  have len: "length (selected_indices (argsort_tie lib) imps) = snd (shape X) div 2"
    by (simp add: length_selected_indices li)
  from f have Xdf: "X_df = \<lparr>df_columns = map (\<lambda>i. ''Feature_'' @ str_nat (i + 1)) [0..<snd (shape X) div 2],
            df_rows = zip (RangeIndex (length X))
              (map (\<lambda>r. map (\<lambda>j. r ! j) (selected_indices (argsort_tie lib) imps)) X)\<rparr>"
    unfolding len by (auto simp: DataFrame_def split: if_splits)
  have ydf: "y_df = \<lparr>df_columns = [''quality''],
            df_rows = zip (df_index wq) (map (\<lambda>r. [r ! q]) (df_values wq))\<rparr>"
    unfolding y ys
    by (simp add: DataFrame_of_Series_def df_values_def df_index_def zip_map_map o_def split_def
        zip_same_conv_map)
  show ?thesis
    using r q d i lX p [unfolded yv] li Xdf ydf by blast
qed

lemma process_heart_disease_data_Inr:
  assumes "fst (process_heart_disease_data lib g fs inp P) = Inr res"
  shows "\<exists>X y. pca_frames lib g inp = Inr (X, y) \<and>
           process_heart_disease_data lib g fs inp P = save_and_split (rng_interval lib) X y P fs"
  using assms unfolding process_heart_disease_data_def by (auto split: sum.splits)

lemma feature_selection_and_split_Inr:
  assumes "fst (feature_selection_and_split lib fs inp P n_est) = Inr res"
  shows "\<exists>X y. selected_frames lib inp n_est = Inr (X, y) \<and>
           feature_selection_and_split lib fs inp P n_est =
             save_and_split (rng_interval lib) X y P fs"
  using assms unfolding feature_selection_and_split_def by (auto split: sum.splits)

lemma df_index_iloc:
  assumes "set ps \<subseteq> {0..<length (df_rows df)}"
  shows "df_index (iloc df ps) = map (\<lambda>p. df_index df ! p) ps"
  using assms by (auto simp: df_index_def iloc_def)

lemma df_values_iloc:
  assumes "set ps \<subseteq> {0..<length (df_rows df)}"
  shows "df_values (iloc df ps) = map (\<lambda>p. df_values df ! p) ps"
  using assms by (auto simp: df_values_def iloc_def)

lemma df_index_iloc_range:
  assumes "df_index df = RangeIndex (length (df_rows df))" and "set ps \<subseteq> {0..<length (df_rows df)}"
  shows "df_index (iloc df ps) = map Pos ps"
proof -
  have "df_index df ! p = Pos p" if "p \<in> set ps" for p
    using that assms by (auto simp: RangeIndex_nth)
  then show ?thesis
    unfolding df_index_iloc [OF assms(2)] by simp
qed

lemma split_positions:
  "set (drop k (permutation rng n)) \<subseteq> {0..<n}" "set (take k (permutation rng n)) \<subseteq> {0..<n}"
  using set_drop_subset [of k "permutation rng n"] set_take_subset [of k "permutation rng n"]
  by (simp_all add: set_permutation)

lemma split_indices:
  assumes s: "train_test_split rng X y = Inr (X_train, X_test, y_train, y_test)"
    and X: "df_index X = RangeIndex (length (df_rows X))"
  shows "df_index X_train =
           map Pos (drop ((length (df_rows X) + 9) div 10) (permutation rng (length (df_rows X))))"
    and "df_index X_test =
           map Pos (take ((length (df_rows X) + 9) div 10) (permutation rng (length (df_rows X))))"
    and "df_index y_train = map (\<lambda>p. df_index y ! p)
           (drop ((length (df_rows X) + 9) div 10) (permutation rng (length (df_rows X))))"
    and "df_index y_test = map (\<lambda>p. df_index y ! p)
           (take ((length (df_rows X) + 9) div 10) (permutation rng (length (df_rows X))))"
proof -
  let ?n = "length (df_rows X)"
  let ?t = "(?n + 9) div 10"
  let ?p = "permutation rng ?n"
  note inv = train_test_split_Inr [OF s]
  show "df_index X_train = map Pos (drop ?t ?p)"
    unfolding inv(3) by (rule df_index_iloc_range [OF X split_positions(1)])
  show "df_index X_test = map Pos (take ?t ?p)"
    unfolding inv(4) by (rule df_index_iloc_range [OF X split_positions(2)])
  show "df_index y_train = map (\<lambda>p. df_index y ! p) (drop ?t ?p)"
    unfolding inv(5) using split_positions(1) [of ?t rng ?n]
    by (intro df_index_iloc) (simp add: inv(1))
  show "df_index y_test = map (\<lambda>p. df_index y ! p) (take ?t ?p)"
    unfolding inv(6) using split_positions(2) [of ?t rng ?n]
    by (intro df_index_iloc) (simp add: inv(1))
qed

lemma split_partition:
  assumes s: "train_test_split rng X y = Inr (X_train, X_test, y_train, y_test)"
    and X: "df_index X = RangeIndex (length (df_rows X))"
  shows "mset (df_rows X_train) + mset (df_rows X_test) = mset (df_rows X)"
    and "mset (df_rows y_train) + mset (df_rows y_test) = mset (df_rows y)"
    and "set (df_index X_train) \<union> set (df_index X_test) = set (df_index X)"
    and "set (df_index X_train) \<inter> set (df_index X_test) = {}"
    and "distinct (df_index X_train)" and "distinct (df_index X_test)"
    and "length (df_rows X_train) + length (df_rows X_test) = length (df_rows X)"
    and "length (df_rows X_test) = (length (df_rows X) + 9) div 10"
    and "length (df_rows y_train) = length (df_rows X_train)"
    and "length (df_rows y_test) = length (df_rows X_test)"
    and "df_index y = df_index X \<Longrightarrow>
           df_index y_train = df_index X_train \<and> df_index y_test = df_index X_test"
proof -
  let ?n = "length (df_rows X)"
  let ?t = "(?n + 9) div 10"
  let ?p = "permutation rng ?n"
  note inv = train_test_split_Inr [OF s]
  have ly: "length (df_rows y) = ?n" and lt: "?t < ?n" using inv by simp_all
  have Xtr: "X_train = iloc X (drop ?t ?p)" and Xte: "X_test = iloc X (take ?t ?p)"
    and ytr: "y_train = iloc y (drop ?t ?p)" and yte: "y_test = iloc y (take ?t ?p)"
    using inv by simp_all
  note idx = split_indices [OF s X]
  show "mset (df_rows X_train) + mset (df_rows X_test) = mset (df_rows X)"
    unfolding Xtr Xte by (rule mset_iloc_split)
  show "mset (df_rows y_train) + mset (df_rows y_test) = mset (df_rows y)"
    unfolding ytr yte using mset_iloc_split [of y ?t rng] by (simp add: ly)
  have "set (drop ?t ?p) \<union> set (take ?t ?p) = set ?p"
    by (metis append_take_drop_id set_append sup_commute)
  then have "Pos ` set (drop ?t ?p) \<union> Pos ` set (take ?t ?p) = Pos ` {0..<?n}"
    by (simp only: image_Un [symmetric] set_permutation)
  then show "set (df_index X_train) \<union> set (df_index X_test) = set (df_index X)"
    by (simp add: idx X RangeIndex_def)
  have d: "set (take ?t ?p) \<inter> set (drop ?t ?p) = {}"
    by (rule set_take_disj_set_drop_if_distinct [OF distinct_permutation order_refl])
  have "Pos ` set (drop ?t ?p) \<inter> Pos ` set (take ?t ?p) = Pos ` (set (drop ?t ?p) \<inter> set (take ?t ?p))"
    by (rule image_Int [symmetric]) (simp add: inj_on_def)
  then show "set (df_index X_train) \<inter> set (df_index X_test) = {}"
    using d by (simp add: idx Int_commute)
  show "distinct (df_index X_train)" and "distinct (df_index X_test)"
    by (simp_all add: idx distinct_map distinct_permutation inj_on_def)
  show "length (df_rows X_test) = (?n + 9) div 10"
    unfolding Xte using lt by (simp add: iloc_def length_permutation)
  show "length (df_rows X_train) + length (df_rows X_test) = ?n"
    unfolding Xte Xtr using lt by (simp add: iloc_def length_permutation)
  show "length (df_rows y_train) = length (df_rows X_train)"
    "length (df_rows y_test) = length (df_rows X_test)"
    unfolding Xte Xtr yte ytr by (simp_all add: iloc_def)
  show "df_index y_train = df_index X_train \<and> df_index y_test = df_index X_test"
    if e: "df_index y = df_index X"
  proof -
    have "df_index X ! p = Pos p" if "p \<in> set ?p" for p
      using that by (simp add: X set_permutation RangeIndex_nth)
    then have "map (\<lambda>p. df_index X ! p) (drop ?t ?p) = map Pos (drop ?t ?p)"
      "map (\<lambda>p. df_index X ! p) (take ?t ?p) = map Pos (take ?t ?p)"
      by (auto dest: in_set_dropD in_set_takeD)
    then show ?thesis
      by (simp add: idx e)
  qed
qed

text \<open>
  The feature frame that either pipeline hands to the split is labelled \<open>0, 1, ...\<close>;
  the label frame of the PCA pipeline too.
\<close>

lemma pipeline_frames:
  assumes "fst (process_heart_disease_data lib g fs inp P) = Inr (X, y, X_train, X_test, y_train, y_test)
         \<or> fst (feature_selection_and_split lib fs inp P n_est) =
             Inr (X, y, X_train, X_test, y_train, y_test)"
  shows "train_test_split (rng_interval lib) X y = Inr (X_train, X_test, y_train, y_test)"
    and "df_index X = RangeIndex (length (df_rows X))"
proof -
  from assms have
    "(\<exists>X' y'. pca_frames lib g inp = Inr (X', y') \<and>
        fst (save_and_split (rng_interval lib) X' y' P fs) = Inr (X, y, X_train, X_test, y_train, y_test))
     \<or> (\<exists>X' y'. selected_frames lib inp n_est = Inr (X', y') \<and>
        fst (save_and_split (rng_interval lib) X' y' P fs) = Inr (X, y, X_train, X_test, y_train, y_test))"
    unfolding process_heart_disease_data_def feature_selection_and_split_def
    by (auto split: sum.splits)
  then have fr: "pca_frames lib g inp = Inr (X, y) \<or> selected_frames lib inp n_est = Inr (X, y)"
    and sp: "train_test_split (rng_interval lib) X y = Inr (X_train, X_test, y_train, y_test)"
    by (auto dest!: save_and_split_Inr)
  show "train_test_split (rng_interval lib) X y = Inr (X_train, X_test, y_train, y_test)"
    by (rule sp)
  from fr show "df_index X = RangeIndex (length (df_rows X))"
    by (auto dest!: pca_frames_Inr selected_frames_Inr simp: df_index_def length_RangeIndex)
qed

lemma pca_label_frame:
  assumes "fst (process_heart_disease_data lib g fs inp P) = Inr (X, y, X_train, X_test, y_train, y_test)"
  shows "df_index y = df_index X"
proof -
  from process_heart_disease_data_Inr [OF assms] obtain X' y' where
    fr: "pca_frames lib g inp = Inr (X', y')"
    and eq: "process_heart_disease_data lib g fs inp P = save_and_split (rng_interval lib) X' y' P fs"
    by blast
  from assms [unfolded eq] have "X' = X" "y' = y"
    by (auto dest!: save_and_split_Inr)
  with pca_frames_Inr [OF fr] show ?thesis
    by (auto simp: df_index_def length_RangeIndex df_values_def)
qed

lemma ceil_tenth_near_round:
  fixes n t :: nat
  assumes "t = (n + 9) div 10"
  shows "round (real n / 10) \<le> int t \<and> int t \<le> round (real n / 10) + 1"
proof -
  have a: "n \<le> 10 * t" and b: "10 * t < n + 10"
    unfolding assms by presburger+
  have "real n / 10 \<le> real t"
    using a by (simp add: field_simps)
  then have "round (real n / 10) \<le> round (real t)"
    by (rule round_mono)
  then have u: "round (real n / 10) \<le> int t"
    by simp
  have "real t - 1 \<le> real n / 10"
    using b by (simp add: field_simps)
  then have "round (real t - 1) \<le> round (real n / 10)"
    by (rule round_mono)
  moreover have "round (real t - 1) = int t - 1"
    by (metis of_int_1 of_int_diff of_int_of_nat_eq round_of_int)
  ultimately show ?thesis
    using u by simp
qed

lemma shape_rows: "X \<noteq> [] \<Longrightarrow> \<forall>r \<in> set X. length r = k \<Longrightarrow> shape X = (length X, k)"
  by (cases X) (simp_all add: shape_def)

lemma filter_full: "length (filter P xs) = length xs \<Longrightarrow> filter P xs = xs"
  by (metis filter_True length_filter_less less_irrefl)




lemma statistics_Some:
  "statistics mean X j \<noteq> None \<longleftrightarrow>
     observed (column X j) \<noteq> [] \<and> mean (observed (column X j)) \<noteq> None"
  by (simp add: statistics_def)



lemma length_valid_columns: "length (valid_columns mean X d) \<le> d"
  unfolding valid_columns_def using length_filter_le [of _ "[0..<d]"] by simp


lemma SimpleImputer_Inr:
  "SimpleImputer_fit_transform lib df = Inr Y \<longleftrightarrow>
     df_values df \<noteq> [] \<and> df_columns df \<noteq> [] \<and> imputer_rejects lib (df_values df) = None \<and>
     Y = map (\<lambda>r. map (\<lambda>j. case r ! j of
                              Some v \<Rightarrow> Some v
                            | None \<Rightarrow> statistics (np_mean lib) (df_values df) j)
                     (valid_columns (np_mean lib) (df_values df) (length (df_columns df))))
             (df_values df)"
  by (auto simp: SimpleImputer_fit_transform_def Let_def split: option.splits)




lemma imputed_width:
  assumes "SimpleImputer_fit_transform lib df = Inr Y"
  shows "snd (shape Y) = length (valid_columns (np_mean lib) (df_values df) (length (df_columns df)))"
    and "fst (shape Y) = length (df_rows df)"
    and "\<forall>r \<in> set Y. length r = snd (shape Y)"
proof -
  let ?V = "valid_columns (np_mean lib) (df_values df) (length (df_columns df))"
  from assms have ne: "df_values df \<noteq> []" and
    Y: "Y = map (\<lambda>r. map (\<lambda>j. case r ! j of
                              Some v \<Rightarrow> Some v
                            | None \<Rightarrow> statistics (np_mean lib) (df_values df) j) ?V) (df_values df)"
    by (simp_all add: SimpleImputer_Inr)
  from ne obtain r X' where "df_values df = r # X'"
    by (cases "df_values df") auto
  then show w: "snd (shape Y) = length ?V"
    unfolding Y by (simp add: shape_def)
  show "fst (shape Y) = length (df_rows df)"
    unfolding Y by (simp add: shape_def df_values_def)
  show "\<forall>r \<in> set Y. length r = snd (shape Y)"
    unfolding w unfolding Y by auto
qed

text \<open>The common tail returns when the frames are labelled alike and the writes succeed.\<close>

lemma concat_axis1_aligned:
  assumes "df_index a = df_index b"
  shows "concat_axis1 a b =
     Inr \<lparr>df_columns = df_columns a @ df_columns b,
          df_rows = zip (df_index a) (map (\<lambda>(r, v). r @ v) (zip (df_values a) (df_values b)))\<rparr>"
proof -
  have "map (\<lambda>((l, r), (l', r')). (l, r @ r')) (zip xs ys) =
        zip (map fst xs) (map (\<lambda>(r, v). r @ v) (zip (map snd xs) (map snd ys)))"
    if "map fst xs = map fst ys" for xs ys :: "('a label \<times> 'a option list) list"
    using that by (induction xs arbitrary: ys) (auto simp: zip_Cons1 split: list.splits)
  then show ?thesis
    using assms by (simp add: concat_axis1_def df_values_def df_index_def)
qed

lemma concat_axis1_aligned_values:
  assumes "df_index a = df_index b" and "concat_axis1 a b = Inr c"
  shows "df_columns c = df_columns a @ df_columns b"
    and "df_values c = map (\<lambda>(r, v). r @ v) (zip (df_values a) (df_values b))"
    and "df_index c = df_index a"
proof -
  have l: "length (df_index a) = length (map (\<lambda>(r, v). r @ v) (zip (df_values a) (df_values b)))"
    using arg_cong [OF assms(1), of length] by (simp add: df_index_def df_values_def)
  have c: "c = \<lparr>df_columns = df_columns a @ df_columns b,
          df_rows = zip (df_index a) (map (\<lambda>(r, v). r @ v) (zip (df_values a) (df_values b)))\<rparr>"
    using assms(2) unfolding concat_axis1_aligned [OF assms(1)] by simp
  show "df_columns c = df_columns a @ df_columns b"
    by (simp add: c)
  show "df_values c = map (\<lambda>(r, v). r @ v) (zip (df_values a) (df_values b))"
    unfolding c by (rule df_values_zip [OF l])
  show "df_index c = df_index a"
    unfolding c by (rule df_index_zip [OF l])
qed

lemma save_and_split_returns:
  assumes i: "df_index y = df_index X" and r: "df_index X = RangeIndex (length (df_rows X))"
    and n: "2 \<le> length (df_rows X)"
    and w: "write_fault fs (P @ ''.csv'') = None" "write_fault fs (P @ ''_train.csv'') = None"
      "write_fault fs (P @ ''_test.csv'') = None"
  shows "\<exists>res. fst (save_and_split rng X y P fs) = Inr res"
proof -
  have ly: "length (df_rows y) = length (df_rows X)"
    using arg_cong [OF i, of length] by (simp add: df_index_def)
  obtain c where c: "concat_axis1 X y = Inr c"
    using concat_axis1_aligned [OF i [symmetric]] by blast
  obtain fs1 where w1: "to_csv c (P @ ''.csv'') fs = (None, fs1)"
    and f1: "write_fault fs1 = write_fault fs"
    using w(1) by (simp add: to_csv_def)
  have "(length (df_rows X) + 9) div 10 < length (df_rows X)"
    using n by presburger
  then obtain X_train X_test y_train y_test where
    s: "train_test_split rng X y = Inr (X_train, X_test, y_train, y_test)"
    unfolding train_test_split_def validate_shuffle_split_def by (simp add: Let_def ly)
  from split_partition(11) [OF s r i] have
    j: "df_index X_train = df_index y_train" "df_index X_test = df_index y_test"
    by simp_all
  obtain tr where tr: "concat_axis1 X_train y_train = Inr tr"
    using concat_axis1_aligned [OF j(1)] by blast
  obtain te where te: "concat_axis1 X_test y_test = Inr te"
    using concat_axis1_aligned [OF j(2)] by blast
  obtain fs2 where w2: "to_csv tr (P @ ''_train.csv'') fs1 = (None, fs2)"
    and f2: "write_fault fs2 = write_fault fs"
    using w(2) f1 by (simp add: to_csv_def)
  obtain fs3 where w3: "to_csv te (P @ ''_test.csv'') fs2 = (None, fs3)"
    using w(3) f2 by (simp add: to_csv_def)
  have "save_and_split rng X y P fs = (Inr (X, y, X_train, X_test, y_train, y_test), fs3)"
    unfolding save_and_split_def by (simp add: c w1 s tr te w2 w3)
  then show ?thesis
    by simp
qed

text \<open>The PCA pipeline returns exactly when its library calls and the three writes succeed.\<close>

lemma pca_frames_returns:
  assumes "read_csv lib inp = Inr wq" and "drop_columns wq ''quality'' = Inr features"
    and "SimpleImputer_fit_transform lib features = Inr X"
    and "PCA_fit_transform lib g 6 X = Inr X_pca"
  shows "\<exists>X_df y_df. pca_frames lib g inp = Inr (X_df, y_df)"
proof -
  from drop_columns_rows [OF assms(2)] obtain q where
    q: "col_position ''quality'' (df_columns wq) = Some q"
    using col_position_None [of "''quality''" "df_columns wq"] by (cases "col_position ''quality'' (df_columns wq)") auto
  then obtain y where g: "getitem wq ''quality'' = Inr y"
    by (simp add: getitem_def)
  from PCA_fit_transform_Inr [OF assms(4)] have
    "\<forall>r \<in> set X_pca. length r = length (map (\<lambda>i. ''PC'' @ str_nat (i + 1)) [0..<6])"
    by auto
  then obtain X_df where "DataFrame X_pca (map (\<lambda>i. ''PC'' @ str_nat (i + 1)) [0..<6]) = Inr X_df"
    unfolding DataFrame_def by auto
  then show ?thesis
    unfolding pca_frames_def by (simp add: assms g)
qed

lemma process_heart_disease_data_returns:
  assumes "read_csv lib inp = Inr wq" and "drop_columns wq ''quality'' = Inr features"
    and "SimpleImputer_fit_transform lib features = Inr X"
    and "PCA_fit_transform lib g 6 X = Inr X_pca"
    and "write_fault fs (P @ ''.csv'') = None" "write_fault fs (P @ ''_train.csv'') = None"
      "write_fault fs (P @ ''_test.csv'') = None"
  shows "\<exists>res. fst (process_heart_disease_data lib g fs inp P) = Inr res"
proof -
  from pca_frames_returns [OF assms(1-4)] obtain X_df y_df where
    fr: "pca_frames lib g inp = Inr (X_df, y_df)"
    by blast
  from pca_frames_Inr [OF fr] have "df_index y_df = df_index X_df"
    "df_index X_df = RangeIndex (length (df_rows X_df))" "2 \<le> length (df_rows X_df)"
    by (auto simp: df_index_def df_values_def length_RangeIndex)
  from save_and_split_returns [OF this assms(5-7)] show ?thesis
    unfolding process_heart_disease_data_def by (simp add: fr)
qed

text \<open>The frames of the feature selection, given the outcomes of its library calls.\<close>

lemma selected_frames_given:
  fixes lib :: "('a, 'b::linorder) libraries"
  assumes "read_csv lib inp = Inr wq" and "drop_columns wq ''quality'' = Inr features"
    and "SimpleImputer_fit_transform lib features = Inr X"
    and "getitem wq ''quality'' = Inr y"
    and "RandomForestClassifier_fit lib n_est X (map snd (s_rows y)) = Inr importances"
  shows "selected_frames lib inp n_est =
     Inr (\<lparr>df_columns = map (\<lambda>i. ''Feature_'' @ str_nat (i + 1)) [0..<length importances div 2],
           df_rows = zip (RangeIndex (length X))
             (map (\<lambda>r. map (\<lambda>j. r ! j) (selected_indices (argsort_tie lib) importances)) X)\<rparr>,
          DataFrame_of_Series y [''quality''])"
proof -
  let ?sel = "selected_indices (argsort_tie lib) importances"
  have "DataFrame (map (\<lambda>r. map (\<lambda>j. r ! j) ?sel) X)
          (map (\<lambda>i. ''Feature_'' @ str_nat (i + 1)) [0..<length ?sel]) =
        Inr \<lparr>df_columns = map (\<lambda>i. ''Feature_'' @ str_nat (i + 1)) [0..<length ?sel],
             df_rows = zip (RangeIndex (length X)) (map (\<lambda>r. map (\<lambda>j. r ! j) ?sel) X)\<rparr>"
    unfolding DataFrame_def by auto
  then show ?thesis
    unfolding selected_frames_def Let_def selected_indices_source
    by (simp add: assms length_selected_indices)
qed

lemma df_index_DataFrame_of_Series:
  "getitem wq c = Inr y \<Longrightarrow> df_index (DataFrame_of_Series y cols) = df_index wq"
  by (auto simp: getitem_Inr DataFrame_of_Series_def df_index_def split_def)

lemma feature_selection_and_split_returns:
  fixes lib :: "('a, 'b::linorder) libraries"
  assumes "read_csv lib inp = Inr wq" and "drop_columns wq ''quality'' = Inr features"
    and "SimpleImputer_fit_transform lib features = Inr X"
    and "getitem wq ''quality'' = Inr y"
    and "RandomForestClassifier_fit lib n_est X (map snd (s_rows y)) = Inr importances"
    and i: "df_index wq = RangeIndex (length (df_rows wq))" and n: "2 \<le> length (df_rows wq)"
    and w: "write_fault fs (P @ ''.csv'') = None" "write_fault fs (P @ ''_train.csv'') = None"
      "write_fault fs (P @ ''_test.csv'') = None"
  shows "\<exists>res. fst (feature_selection_and_split lib fs inp P n_est) = Inr res"
proof -
  let ?X = "\<lparr>df_columns = map (\<lambda>i. ''Feature_'' @ str_nat (i + 1)) [0..<length importances div 2],
           df_rows = zip (RangeIndex (length X))
             (map (\<lambda>r. map (\<lambda>j. r ! j) (selected_indices (argsort_tie lib) importances)) X)\<rparr>"
  let ?y = "DataFrame_of_Series y [''quality'']"
  note fr = selected_frames_given [OF assms(1-5)]
  have lX: "length X = length (df_rows wq)"
    using length_imputed [OF assms(3)] drop_columns_rows [OF assms(2)] by simp
  have a: "df_index ?X = RangeIndex (length (df_rows ?X))"
    by (simp add: df_index_def length_RangeIndex)
  have b: "df_index ?y = df_index ?X"
    unfolding df_index_DataFrame_of_Series [OF assms(4)] i
    by (simp add: df_index_def length_RangeIndex lX)
  have c: "2 \<le> length (df_rows ?X)"
    using n by (simp add: length_RangeIndex lX)
  from save_and_split_returns [OF b a c w] show ?thesis
    unfolding feature_selection_and_split_def by (simp add: fr)
qed

text \<open>The tables that are written.\<close>

lemma output_paths_distinct: "distinct [P @ ''.csv'', P @ ''_train.csv'', P @ ''_test.csv'']"
  by simp

lemma row_at_length:
  assumes "\<forall>r \<in> set (df_values df). length r = length (df_columns df)"
  shows "length (row_at df l) = length (df_columns df)"
proof (cases "map_of (df_rows df) l")
  case None
  then show ?thesis by (simp add: row_at_def)
next
  case (Some r)
  then have "(l, r) \<in> set (df_rows df)"
    by (rule map_of_SomeD)
  then have "r \<in> set (df_values df)"
    unfolding df_values_def by force
  with assms Some show ?thesis
    by (simp add: row_at_def)
qed

lemma concat_axis1_Inr:
  assumes c: "concat_axis1 a b = Inr c"
    and a: "\<forall>r \<in> set (df_values a). length r = length (df_columns a)"
    and b: "\<forall>r \<in> set (df_values b). length r = length (df_columns b)"
  shows "df_columns c = df_columns a @ df_columns b"
    and "\<forall>r \<in> set (df_values c). length r = length (df_columns a @ df_columns b)"
proof -
  show "df_columns c = df_columns a @ df_columns b"
    using c unfolding concat_axis1_def by (auto split: if_splits)
  show "\<forall>r \<in> set (df_values c). length r = length (df_columns a @ df_columns b)"
  proof (cases "df_index a = df_index b")
    case True
    have "length r + length v = length (df_columns a) + length (df_columns b)"
      if "(r, v) \<in> set (zip (df_values a) (df_values b))" for r v
      using a b set_zip_leftD [OF that] set_zip_rightD [OF that] by simp
    then show ?thesis
      unfolding concat_axis1_aligned_values(2) [OF True c] by auto
  next
    case False
    then show ?thesis
      using c row_at_length [OF a] row_at_length [OF b] unfolding concat_axis1_def
      by (auto simp: df_values_def [of "\<lparr>df_columns = _, df_rows = _\<rparr>"] split: if_splits)
  qed
qed

lemma iloc_rows_subset:
  assumes "set ps \<subseteq> {0..<length (df_rows df)}"
  shows "set (df_values (iloc df ps)) \<subseteq> set (df_values df)" and "df_columns (iloc df ps) = df_columns df"
  using assms by (auto simp: iloc_def df_values_def)

lemma frames_well_formed:
  assumes "pca_frames lib g inp = Inr (X, y) \<or> selected_frames lib inp n_est = Inr (X, y)"
  shows "\<forall>r \<in> set (df_values X). length r = length (df_columns X)"
    and "\<forall>v \<in> set (df_values y). length v = length (df_columns y)"
    and "df_columns y = [''quality'']"
proof -
  have "(\<forall>r \<in> set (df_values X). length r = length (df_columns X)) \<and>
        (\<forall>v \<in> set (df_values y). length v = length (df_columns y)) \<and> df_columns y = [''quality'']"
    using assms
  proof
    assume "pca_frames lib g inp = Inr (X, y)"
    from pca_frames_Inr [OF this] show ?thesis
      by (auto simp: df_values_def length_RangeIndex dest!: set_zip_rightD)
  next
    assume "selected_frames lib inp n_est = Inr (X, y)"
    from selected_frames_Inr [OF this] show ?thesis
      by (auto simp: df_values_def length_RangeIndex length_selected_indices dest!: set_zip_rightD)
  qed
  then show "\<forall>r \<in> set (df_values X). length r = length (df_columns X)"
    and "\<forall>v \<in> set (df_values y). length v = length (df_columns y)"
    and "df_columns y = [''quality'']"
    by simp_all
qed

lemma map2_nth:
  assumes "set ps \<subseteq> {0..<length xs}" and "length ys = length xs"
  shows "map (\<lambda>(r, v). r @ v) (zip (map (\<lambda>p. xs ! p) ps) (map (\<lambda>p. ys ! p) ps)) =
         map (\<lambda>p. map (\<lambda>(r, v). r @ v) (zip xs ys) ! p) ps"
proof -
  have "map (\<lambda>(r, v). r @ v) (zip (map (\<lambda>p. xs ! p) ps) (map (\<lambda>p. ys ! p) ps)) =
        map (\<lambda>p. xs ! p @ ys ! p) ps"
    by (simp add: map2_map_map)
  also have "\<dots> = map (\<lambda>p. map (\<lambda>(r, v). r @ v) (zip xs ys) ! p) ps"
    using assms by (intro map_cong [OF refl]) auto
  finally show ?thesis .
qed

lemma save_and_split_written:
  assumes r: "fst (save_and_split rng X y P fs) = Inr res"
    and i: "df_index X = RangeIndex (length (df_rows X))"
    and wX: "\<forall>r \<in> set (df_values X). length r = length (df_columns X)"
    and wy: "\<forall>v \<in> set (df_values y). length v = length (df_columns y)"
    and q: "df_columns y = [''quality'']"
  shows "three_files_written P res fs (snd (save_and_split rng X y P fs))"
proof -
  let ?fs' = "snd (save_and_split rng X y P fs)"
  from save_and_split_Inr [OF r] obtain X_train X_test y_train y_test c tr te where
    s: "train_test_split rng X y = Inr (X_train, X_test, y_train, y_test)"
    and res: "res = (X, y, X_train, X_test, y_train, y_test)"
    and c: "concat_axis1 X y = Inr c" and tr: "concat_axis1 X_train y_train = Inr tr"
    and te: "concat_axis1 X_test y_test = Inr te"
    and fs': "?fs' = fs\<lparr>files := (files fs)
         (P @ ''.csv'' \<mapsto> Csv (df_columns c) (df_values c),
          P @ ''_train.csv'' \<mapsto> Csv (df_columns tr) (df_values tr),
          P @ ''_test.csv'' \<mapsto> Csv (df_columns te) (df_values te))\<rparr>"
    by blast
  let ?n = "length (df_rows X)"
  let ?t = "(?n + 9) div 10"
  let ?p = "permutation rng ?n"
  note inv = train_test_split_Inr [OF s]
  have ly: "length (df_rows y) = ?n"
    using inv(1) .
  have f1: "files ?fs' (P @ ''.csv'') = Some (Csv (df_columns c) (df_values c))"
    and f2: "files ?fs' (P @ ''_train.csv'') = Some (Csv (df_columns tr) (df_values tr))"
    and f3: "files ?fs' (P @ ''_test.csv'') = Some (Csv (df_columns te) (df_values te))"
    unfolding fs' by simp_all
  have o: "\<forall>p. p \<notin> {P @ ''.csv'', P @ ''_train.csv'', P @ ''_test.csv''} \<longrightarrow>
             files ?fs' p = files fs p"
    unfolding fs' by simp
  have wf: "write_fault ?fs' = write_fault fs"
    unfolding fs' by simp
  have j: "files ?fs' (P @ ''.csv'') = joined_table X y"
    "files ?fs' (P @ ''_train.csv'') = joined_table X_train y_train"
    "files ?fs' (P @ ''_test.csv'') = joined_table X_test y_test"
    by (simp_all add: f1 f2 f3 joined_table_def c tr te)
  have sub: "set (df_values X_train) \<subseteq> set (df_values X)" "df_columns X_train = df_columns X"
    "set (df_values X_test) \<subseteq> set (df_values X)" "df_columns X_test = df_columns X"
    unfolding inv(3,4)
    by (simp_all add: iloc_rows_subset [OF split_positions(1)] iloc_rows_subset [OF split_positions(2)])
  have suby: "set (df_values y_train) \<subseteq> set (df_values y)" "df_columns y_train = df_columns y"
    "set (df_values y_test) \<subseteq> set (df_values y)" "df_columns y_test = df_columns y"
    unfolding inv(5,6) using split_positions [of ?t rng ?n]
    by (simp_all add: iloc_rows_subset ly)
  have wtr: "\<forall>r \<in> set (df_values X_train). length r = length (df_columns X_train)"
    and wte: "\<forall>r \<in> set (df_values X_test). length r = length (df_columns X_test)"
    using wX sub by auto
  have wytr: "\<forall>r \<in> set (df_values y_train). length r = length (df_columns y_train)"
    and wyte: "\<forall>r \<in> set (df_values y_test). length r = length (df_columns y_test)"
    using wy suby by auto
  have h: "csv_with_header (df_columns X @ [''quality'']) (files ?fs' (P @ ''.csv''))"
    "csv_with_header (df_columns X @ [''quality'']) (files ?fs' (P @ ''_train.csv''))"
    "csv_with_header (df_columns X @ [''quality'']) (files ?fs' (P @ ''_test.csv''))"
    unfolding f1 f2 f3 csv_with_header_def
    using concat_axis1_Inr [OF c wX wy] concat_axis1_Inr [OF tr wtr wytr]
      concat_axis1_Inr [OF te wte wyte]
    by (simp_all add: sub suby q)
  have al: "files ?fs' (P @ ''.csv'') = Some (table_of X y) \<and>
           files ?fs' (P @ ''_train.csv'') = Some (table_of X_train y_train) \<and>
           files ?fs' (P @ ''_test.csv'') = Some (table_of X_test y_test) \<and>
           length (records (files ?fs' (P @ ''.csv''))) = length (df_rows X) \<and>
           mset (records (files ?fs' (P @ ''_train.csv''))) +
             mset (records (files ?fs' (P @ ''_test.csv''))) =
             mset (records (files ?fs' (P @ ''.csv'')))"
    if e: "df_index y = df_index X"
  proof -
    from split_partition(11) [OF s i e] have
      e': "df_index X_train = df_index y_train" "df_index X_test = df_index y_test"
      by simp_all
    have t1: "files ?fs' (P @ ''.csv'') = Some (table_of X y)"
      unfolding f1 table_of_def concat_axis1_aligned_values(1,2) [OF e [symmetric] c]
      by (simp add: q)
    have t2: "files ?fs' (P @ ''_train.csv'') = Some (table_of X_train y_train)"
      unfolding f2 table_of_def concat_axis1_aligned_values(1,2) [OF e'(1) tr]
      by (simp add: q suby)
    have t3: "files ?fs' (P @ ''_test.csv'') = Some (table_of X_test y_test)"
      unfolding f3 table_of_def concat_axis1_aligned_values(1,2) [OF e'(2) te]
      by (simp add: q suby)
    let ?Z = "map (\<lambda>(r, v). r @ v) (zip (df_values X) (df_values y))"
    have lv: "length (df_values X) = ?n" "length (df_values y) = length (df_values X)"
      by (simp_all add: df_values_def ly)
    have lZ: "length ?Z = ?n"
      by (simp add: lv)
    have vtr: "df_values X_train = map (\<lambda>p. df_values X ! p) (drop ?t ?p)"
      "df_values y_train = map (\<lambda>p. df_values y ! p) (drop ?t ?p)"
      "df_values X_test = map (\<lambda>p. df_values X ! p) (take ?t ?p)"
      "df_values y_test = map (\<lambda>p. df_values y ! p) (take ?t ?p)"
      unfolding inv(3-6) using split_positions [of ?t rng ?n]
      by (simp_all add: df_values_iloc ly)
    have r1: "records (files ?fs' (P @ ''.csv'')) = ?Z"
      unfolding t1 by (simp add: records_def table_of_def)
    have r2: "records (files ?fs' (P @ ''_train.csv'')) = map (\<lambda>p. ?Z ! p) (drop ?t ?p)"
      unfolding t2 records_def table_of_def vtr using split_positions(1) [of ?t rng ?n]
      by (simp add: map2_nth lv)
    have r3: "records (files ?fs' (P @ ''_test.csv'')) = map (\<lambda>p. ?Z ! p) (take ?t ?p)"
      unfolding t3 records_def table_of_def vtr using split_positions(2) [of ?t rng ?n]
      by (simp add: map2_nth lv)
    have "mset (map (\<lambda>p. ?Z ! p) (drop ?t ?p)) + mset (map (\<lambda>p. ?Z ! p) (take ?t ?p)) = mset ?Z"
      using mset_map_split [of ?Z ?t rng] unfolding lZ .
    then show ?thesis
      unfolding r1 r2 r3 using t1 t2 t3 r1 lZ by simp
  qed
  show ?thesis
    unfolding three_files_written_def res using output_paths_distinct [of P] o wf j h al
    by auto
qed

lemma three_files_writtenD:
  assumes "three_files_written P (X, y, X_train, X_test, y_train, y_test) fs fs'"
  shows "p \<notin> {P @ ''.csv'', P @ ''_train.csv'', P @ ''_test.csv''} \<Longrightarrow> files fs' p = files fs p"
    and "df_index y = df_index X \<Longrightarrow> files fs' (P @ ''.csv'') = Some (table_of X y)"
    and "df_index y = df_index X \<Longrightarrow> files fs' (P @ ''_train.csv'') = Some (table_of X_train y_train)"
    and "df_index y = df_index X \<Longrightarrow> files fs' (P @ ''_test.csv'') = Some (table_of X_test y_test)"
    and "df_index y = df_index X \<Longrightarrow> length (records (files fs' (P @ ''.csv''))) = length (df_rows X)"
proof -
  note c = assms [unfolded three_files_written_def prod.case]
  note a = c [THEN conjunct2, THEN conjunct1]
  note b = c [THEN conjunct2, THEN conjunct2, THEN conjunct2, THEN conjunct2, THEN conjunct2,
      THEN conjunct2, THEN conjunct2, THEN conjunct2, THEN conjunct2]
  show "p \<notin> {P @ ''.csv'', P @ ''_train.csv'', P @ ''_test.csv''} \<Longrightarrow> files fs' p = files fs p"
    by (rule a [THEN spec, THEN mp])
  show "df_index y = df_index X \<Longrightarrow> files fs' (P @ ''.csv'') = Some (table_of X y)"
    by (rule b [THEN mp, THEN conjunct1])
  show "df_index y = df_index X \<Longrightarrow> files fs' (P @ ''_train.csv'') = Some (table_of X_train y_train)"
    by (rule b [THEN mp, THEN conjunct2, THEN conjunct1])
  show "df_index y = df_index X \<Longrightarrow> files fs' (P @ ''_test.csv'') = Some (table_of X_test y_test)"
    by (rule b [THEN mp, THEN conjunct2, THEN conjunct2, THEN conjunct1])
  show "df_index y = df_index X \<Longrightarrow> length (records (files fs' (P @ ''.csv''))) = length (df_rows X)"
    by (rule b [THEN mp, THEN conjunct2, THEN conjunct2, THEN conjunct2, THEN conjunct1])
qed

text \<open>What a failure of the common tail leaves.\<close>

lemma left_after_nothing: "left_after 0 None P tables fs = fs"
  by (simp add: left_after_def)

lemma left_after_first:
  "left_after (Suc 0) None P (c # tables) fs =
     fs\<lparr>files := (files fs)(P @ ''.csv'' \<mapsto> Csv (df_columns c) (df_values c))\<rparr>"
  by (simp add: left_after_def)

lemma left_after_second:
  "left_after 2 None P [c, tr, te] fs =
     fs\<lparr>files := (files fs)(P @ ''.csv'' \<mapsto> Csv (df_columns c) (df_values c),
                          P @ ''_train.csv'' \<mapsto> Csv (df_columns tr) (df_values tr))\<rparr>"
  by (simp add: left_after_def numeral_2_eq_2)

lemma left_after_broken:
  "left_after 0 (Some k) P (c # tables) fs =
     fs\<lparr>files := (files fs)(P @ ''.csv'' \<mapsto> Partial (df_columns c) (take k (df_values c)))\<rparr>"
  "left_after (Suc 0) (Some k) P [c, tr, te] fs =
     fs\<lparr>files := (files fs)(P @ ''.csv'' \<mapsto> Csv (df_columns c) (df_values c),
                          P @ ''_train.csv'' \<mapsto> Partial (df_columns tr) (take k (df_values tr)))\<rparr>"
  "left_after 2 (Some k) P [c, tr, te] fs =
     fs\<lparr>files := (files fs)(P @ ''.csv'' \<mapsto> Csv (df_columns c) (df_values c),
                          P @ ''_train.csv'' \<mapsto> Csv (df_columns tr) (df_values tr),
                          P @ ''_test.csv'' \<mapsto> Partial (df_columns te) (take k (df_values te)))\<rparr>"
  by (simp_all add: left_after_def numeral_2_eq_2)

lemma to_csv_failed:
  assumes "to_csv df path fs = (Some e, fs')"
  shows "e = OSError \<and>
     (fs' = fs \<or>
      (\<exists>k. fs' = fs\<lparr>files := (files fs)(path \<mapsto> Partial (df_columns df) (take k (df_values df)))\<rparr>))"
  using assms by (auto simp: to_csv_def split: option.splits write_fault.splits)

lemma save_and_split_Inl:
  assumes f: "fst (save_and_split rng X y P fs) = Inl e"
  shows "\<exists>completed broken.
     completed \<le> 2 \<and> completed \<le> length (tables_to_write rng X y) \<and>
     (broken \<noteq> None \<longrightarrow> e = OSError \<and> completed < length (tables_to_write rng X y)) \<and>
     snd (save_and_split rng X y P fs) =
       left_after completed broken P (tables_to_write rng X y) fs"
proof (cases "concat_axis1 X y")
  case (Inl e')
  then have "snd (save_and_split rng X y P fs) = left_after 0 None P (tables_to_write rng X y) fs"
    unfolding save_and_split_def by (simp add: left_after_nothing)
  then show ?thesis
    by (intro exI [of _ 0] exI [of _ None]) simp
next
  case c: (Inr c)
  show ?thesis
  proof (cases "to_csv c (P @ ''.csv'') fs")
    case (Pair r1 fs1)
    show ?thesis
    proof (cases r1)
      case (Some e1)
      have s: "save_and_split rng X y P fs = (Inl e1, fs1)"
        unfolding save_and_split_def by (simp add: c Pair Some)
      from to_csv_failed [OF Pair [unfolded Some]] have e1: "e1 = OSError"
        and d: "fs1 = fs \<or> (\<exists>k. fs1 = fs\<lparr>files := (files fs)
                  (P @ ''.csv'' \<mapsto> Partial (df_columns c) (take k (df_values c)))\<rparr>)"
        by simp_all
      from f s e1 have e: "e = OSError" by simp
      obtain ts where t: "tables_to_write rng X y = c # ts"
        unfolding tables_to_write_def by (simp add: c)
      from d show ?thesis
      proof
        assume "fs1 = fs"
        then have "snd (save_and_split rng X y P fs) =
            left_after 0 None P (tables_to_write rng X y) fs"
          by (simp add: s left_after_nothing)
        then show ?thesis
          by (intro exI [of _ 0] exI [of _ None]) simp
      next
        assume "\<exists>k. fs1 = fs\<lparr>files := (files fs)
                  (P @ ''.csv'' \<mapsto> Partial (df_columns c) (take k (df_values c)))\<rparr>"
        then obtain k where "fs1 = fs\<lparr>files := (files fs)
                  (P @ ''.csv'' \<mapsto> Partial (df_columns c) (take k (df_values c)))\<rparr>"
          by blast
        then have "snd (save_and_split rng X y P fs) =
            left_after 0 (Some k) P (tables_to_write rng X y) fs"
          by (simp add: s t left_after_broken)
        then show ?thesis
          using e t by (intro exI [of _ 0] exI [of _ "Some k"]) simp
      qed
    next
      case None
      from Pair [unfolded None] have fs1: "fs1 = fs\<lparr>files := (files fs)
          (P @ ''.csv'' \<mapsto> Csv (df_columns c) (df_values c))\<rparr>"
        by (simp add: to_csv_None)
      have one: "\<exists>completed broken.
           completed \<le> 2 \<and> completed \<le> length (tables_to_write rng X y) \<and>
           (broken \<noteq> None \<longrightarrow> e = OSError \<and> completed < length (tables_to_write rng X y)) \<and>
           snd (save_and_split rng X y P fs) =
             left_after completed broken P (tables_to_write rng X y) fs"
        if s: "snd (save_and_split rng X y P fs) = fs1" and t: "tables_to_write rng X y = c # ts"
        for ts
      proof -
        have "snd (save_and_split rng X y P fs) =
            left_after 1 None P (tables_to_write rng X y) fs"
          unfolding s t fs1 by (simp add: left_after_first)
        then show ?thesis
          using t by (intro exI [of _ 1] exI [of _ None]) simp
      qed
      show ?thesis
      proof (cases "train_test_split rng X y")
        case (Inl e')
        have "snd (save_and_split rng X y P fs) = fs1"
          unfolding save_and_split_def by (simp add: c Pair None Inl)
        moreover have "tables_to_write rng X y = c # []"
          unfolding tables_to_write_def by (simp add: c Inl)
        ultimately show ?thesis
          by (rule one)
      next
        case (Inr quad)
        then obtain X_train X_test y_train y_test where
          sp: "train_test_split rng X y = Inr (X_train, X_test, y_train, y_test)"
          by (cases quad) auto
        show ?thesis
        proof (cases "concat_axis1 X_train y_train")
          case (Inl e')
          have "snd (save_and_split rng X y P fs) = fs1"
            unfolding save_and_split_def by (simp add: c Pair None sp Inl)
          moreover have "tables_to_write rng X y = c # []"
            unfolding tables_to_write_def by (simp add: c sp Inl)
          ultimately show ?thesis
            by (rule one)
        next
          case tr: (Inr tr)
          show ?thesis
          proof (cases "concat_axis1 X_test y_test")
            case (Inl e')
            have "snd (save_and_split rng X y P fs) = fs1"
              unfolding save_and_split_def by (simp add: c Pair None sp tr Inl)
            moreover have "tables_to_write rng X y = c # []"
              unfolding tables_to_write_def by (simp add: c sp tr Inl)
            ultimately show ?thesis
              by (rule one)
          next
            case te: (Inr te)
            have t: "tables_to_write rng X y = [c, tr, te]"
              unfolding tables_to_write_def by (simp add: c sp tr te)
            show ?thesis
            proof (cases "to_csv tr (P @ ''_train.csv'') fs1")
              case p2: (Pair r2 fs2)
              show ?thesis
              proof (cases r2)
                case (Some e2)
                have s: "save_and_split rng X y P fs = (Inl e2, fs2)"
                  unfolding save_and_split_def by (simp add: c Pair None sp tr te p2 Some)
                from to_csv_failed [OF p2 [unfolded Some]] have e2: "e2 = OSError"
                  and d: "fs2 = fs1 \<or> (\<exists>k. fs2 = fs1\<lparr>files := (files fs1)
                      (P @ ''_train.csv'' \<mapsto> Partial (df_columns tr) (take k (df_values tr)))\<rparr>)"
                  by simp_all
                from f s e2 have e: "e = OSError" by simp
                from d show ?thesis
                proof
                  assume "fs2 = fs1"
                  then have "snd (save_and_split rng X y P fs) = fs1"
                    by (simp add: s)
                  then show ?thesis
                    using t by (rule one)
                next
                  assume "\<exists>k. fs2 = fs1\<lparr>files := (files fs1)
                      (P @ ''_train.csv'' \<mapsto> Partial (df_columns tr) (take k (df_values tr)))\<rparr>"
                  then obtain k where "fs2 = fs1\<lparr>files := (files fs1)
                      (P @ ''_train.csv'' \<mapsto> Partial (df_columns tr) (take k (df_values tr)))\<rparr>"
                    by blast
                  then have "snd (save_and_split rng X y P fs) =
                      left_after 1 (Some k) P (tables_to_write rng X y) fs"
                    by (simp add: s t fs1 left_after_broken)
                  then show ?thesis
                    using e t by (intro exI [of _ 1] exI [of _ "Some k"]) simp
                qed
              next
                case n2: None
                from p2 [unfolded n2] have fs2: "fs2 = fs1\<lparr>files := (files fs1)
                    (P @ ''_train.csv'' \<mapsto> Csv (df_columns tr) (df_values tr))\<rparr>"
                  by (simp add: to_csv_None)
                show ?thesis
                proof (cases "to_csv te (P @ ''_test.csv'') fs2")
                  case p3: (Pair r3 fs3)
                  show ?thesis
                  proof (cases r3)
                    case (Some e3)
                    have s: "save_and_split rng X y P fs = (Inl e3, fs3)"
                      unfolding save_and_split_def
                      by (simp add: c Pair None sp tr te p2 n2 p3 Some)
                    from to_csv_failed [OF p3 [unfolded Some]] have e3: "e3 = OSError"
                      and d: "fs3 = fs2 \<or> (\<exists>k. fs3 = fs2\<lparr>files := (files fs2)
                          (P @ ''_test.csv'' \<mapsto> Partial (df_columns te) (take k (df_values te)))\<rparr>)"
                      by simp_all
                    from f s e3 have e: "e = OSError" by simp
                    from d show ?thesis
                    proof
                      assume "fs3 = fs2"
                      then have "snd (save_and_split rng X y P fs) =
                          left_after 2 None P (tables_to_write rng X y) fs"
                        by (simp add: s t fs1 fs2 left_after_second)
                      then show ?thesis
                        using t by (intro exI [of _ 2] exI [of _ None]) simp
                    next
                      assume "\<exists>k. fs3 = fs2\<lparr>files := (files fs2)
                          (P @ ''_test.csv'' \<mapsto> Partial (df_columns te) (take k (df_values te)))\<rparr>"
                      then obtain k where "fs3 = fs2\<lparr>files := (files fs2)
                          (P @ ''_test.csv'' \<mapsto> Partial (df_columns te) (take k (df_values te)))\<rparr>"
                        by blast
                      then have "snd (save_and_split rng X y P fs) =
                          left_after 2 (Some k) P (tables_to_write rng X y) fs"
                        by (simp add: s t fs1 fs2 left_after_broken)
                      then show ?thesis
                        using e t by (intro exI [of _ 2] exI [of _ "Some k"]) simp
                    qed
                  next
                    case n3: None
                    have "save_and_split rng X y P fs =
                        (Inr (X, y, X_train, X_test, y_train, y_test), fs3)"
                      unfolding save_and_split_def
                      by (simp add: c Pair None sp tr te p2 n2 p3 n3)
                    with f show ?thesis
                      by simp
                  qed
                qed
              qed
            qed
          qed
        qed
      qed
    qed
  qed
qed

lemma save_and_split_split_error:
  assumes "concat_axis1 X y = Inr c" and "write_fault fs (P @ ''.csv'') = None"
    and "train_test_split rng X y = Inl e"
  shows "save_and_split rng X y P fs =
     (Inl e, fs\<lparr>files := (files fs)(P @ ''.csv'' \<mapsto> Csv (df_columns c) (df_values c))\<rparr>)"
  unfolding save_and_split_def using assms by (simp add: to_csv_def)

section \<open>The claims\<close>

subsection \<open>C1: the PCA output has six named columns and one row per input row\<close>

text \<open>
  Claim C1. An input is valid for \<^verbatim>\<open>process_heart_disease_data\<close> when the file is read,
  the frame has a \<open>quality\<close> column, the imputer and the PCA accept the features and the
  three output files can be written. On every valid input the function returns; and
  whenever it returns, the reduced representation (the first returned frame) has exactly
  the 6 columns \<open>PC1\<close> to \<open>PC6\<close>, every row has 6 cells, the number of rows is the number
  of rows of the frame read from the input file, and the rows are labelled \<open>0, 1, ...\<close>.
\<close>

theorem pca_output_shape:
  assumes csv: "read_csv lib inp = Inr wine_quality"
  shows "(\<forall>features X X_pca.
            drop_columns wine_quality ''quality'' = Inr features \<and>
            SimpleImputer_fit_transform lib features = Inr X \<and>
            PCA_fit_transform lib g 6 X = Inr X_pca \<and>
            write_fault fs (P @ ''.csv'') = None \<and> write_fault fs (P @ ''_train.csv'') = None \<and>
            write_fault fs (P @ ''_test.csv'') = None \<longrightarrow>
            (\<exists>res. fst (process_heart_disease_data lib g fs inp P) = Inr res)) \<and>
         (\<forall>X_df y X_train X_test y_train y_test.
            fst (process_heart_disease_data lib g fs inp P) =
              Inr (X_df, y, X_train, X_test, y_train, y_test) \<longrightarrow>
            df_columns X_df = [''PC1'', ''PC2'', ''PC3'', ''PC4'', ''PC5'', ''PC6''] \<and>
            length (df_columns X_df) = 6 \<and>
            (\<forall>r \<in> set (df_values X_df). length r = 6) \<and>
            length (df_rows X_df) = length (df_rows wine_quality) \<and>
            shape (df_values X_df) = (length (df_rows wine_quality), 6) \<and>
            df_index X_df = RangeIndex (length (df_rows wine_quality)))"
proof (intro conjI allI impI)
  fix features X X_pca
  assume "drop_columns wine_quality ''quality'' = Inr features \<and>
            SimpleImputer_fit_transform lib features = Inr X \<and>
            PCA_fit_transform lib g 6 X = Inr X_pca \<and>
            write_fault fs (P @ ''.csv'') = None \<and> write_fault fs (P @ ''_train.csv'') = None \<and>
            write_fault fs (P @ ''_test.csv'') = None"
  then show "\<exists>res. fst (process_heart_disease_data lib g fs inp P) = Inr res"
    using process_heart_disease_data_returns [OF csv, of features X g X_pca fs P] by blast
next
  fix X_df y X_train X_test y_train y_test
  assume r: "fst (process_heart_disease_data lib g fs inp P) =
              Inr (X_df, y, X_train, X_test, y_train, y_test)"
  from process_heart_disease_data_Inr [OF r] obtain X' y' where
    fr: "pca_frames lib g inp = Inr (X', y')"
    and eq: "process_heart_disease_data lib g fs inp P = save_and_split (rng_interval lib) X' y' P fs"
    by blast
  from r [unfolded eq] have X': "X' = X_df"
    by (auto dest!: save_and_split_Inr)
  from pca_frames_Inr [OF fr [unfolded X']] obtain wq q features X score where
    wq: "read_csv lib inp = Inr wq"
    and "col_position ''quality'' (df_columns wq) = Some q"
    and "drop_columns wq ''quality'' = Inr features"
    and "SimpleImputer_fit_transform lib features = Inr X"
    and l': "length X = length (df_rows wq)" "6 \<le> length X"
    and "6 \<le> snd (shape X)"
    and "pca_solve lib (if pca_randomized lib (length X) (snd (shape X)) 6 then Some g else None) 6 X
       = Inr score"
    and X: "X_df = \<lparr>df_columns = [''PC1'', ''PC2'', ''PC3'', ''PC4'', ''PC5'', ''PC6''],
            df_rows = zip (RangeIndex (length X))
              (map (\<lambda>i. map (\<lambda>c. score i c) [0..<6]) [0..<length X])\<rparr>"
    by blast
  from wq csv l' have l: "length X = length (df_rows wine_quality)" "6 \<le> length X"
    by simp_all
  have v: "df_values X_df = map (\<lambda>i. map (\<lambda>c. score i c) [0..<6]) [0..<length X]"
    unfolding X by (simp add: df_values_def length_RangeIndex)
  show "df_columns X_df = [''PC1'', ''PC2'', ''PC3'', ''PC4'', ''PC5'', ''PC6'']"
    "length (df_columns X_df) = 6"
    by (simp_all add: X)
  show w: "\<forall>r \<in> set (df_values X_df). length r = 6"
    unfolding v by auto
  show "length (df_rows X_df) = length (df_rows wine_quality)"
    by (simp add: X l length_RangeIndex)
  show "df_index X_df = RangeIndex (length (df_rows wine_quality))"
    by (simp add: X l df_index_def length_RangeIndex)
  have "df_values X_df \<noteq> []" "length (df_values X_df) = length (df_rows wine_quality)"
    unfolding v using l by auto
  with shape_rows [OF _ w] show "shape (df_values X_df) = (length (df_rows wine_quality), 6)"
    by simp
qed

theorem pca_output_shape_witness:
  "read_csv toy ''wine.csv'' = Inr toy_wine \<and>
   fst (process_heart_disease_data toy 0 toy_fs ''wine.csv'' ''out'') = Inr toy_pca_result \<and>
   df_columns (fst toy_pca_result) = [''PC1'', ''PC2'', ''PC3'', ''PC4'', ''PC5'', ''PC6''] \<and>
   length (df_rows toy_wine) = 7 \<and>
   length (df_rows (fst toy_pca_result)) = 7 \<and>
   (\<exists>res. fst (process_heart_disease_data toy 0 toy_fs ''wine.csv'' ''out'') = Inr res)"
proof -
  have c: "read_csv toy ''wine.csv'' = Inr toy_wine"
    by code_simp
  have h: "fst (process_heart_disease_data toy 0 toy_fs ''wine.csv'' ''out'') = Inr toy_pca_result"
    by code_simp
  have n: "length (df_rows toy_wine) = 7"
    by code_simp
  have d: "drop_columns toy_wine ''quality'' = Inr (projr (drop_columns toy_wine ''quality''))"
    by code_simp
  have i: "SimpleImputer_fit_transform toy (projr (drop_columns toy_wine ''quality'')) =
      Inr (projr (SimpleImputer_fit_transform toy (projr (drop_columns toy_wine ''quality''))))"
    by code_simp
  have p: "PCA_fit_transform toy 0 6
        (projr (SimpleImputer_fit_transform toy (projr (drop_columns toy_wine ''quality'')))) =
      Inr (projr (PCA_fit_transform toy 0 6
        (projr (SimpleImputer_fit_transform toy (projr (drop_columns toy_wine ''quality''))))))"
    by code_simp
  have w: "write_fault toy_fs (''out'' @ ''.csv'') = None"
    "write_fault toy_fs (''out'' @ ''_train.csv'') = None"
    "write_fault toy_fs (''out'' @ ''_test.csv'') = None"
    by (simp_all add: toy_fs_def)
  note t = pca_output_shape [OF c, of 0 toy_fs "''out''"]
  from t d i p w have r: "\<exists>res. fst (process_heart_disease_data toy 0 toy_fs ''wine.csv'' ''out'') = Inr res"
    by blast
  have e: "fst (process_heart_disease_data toy 0 toy_fs ''wine.csv'' ''out'') =
      Inr (fst toy_pca_result, fst (snd toy_pca_result), fst (snd (snd toy_pca_result)),
           fst (snd (snd (snd toy_pca_result))), fst (snd (snd (snd (snd toy_pca_result)))),
           snd (snd (snd (snd (snd toy_pca_result)))))"
    using h by simp
  from t e have s: "df_columns (fst toy_pca_result) = [''PC1'', ''PC2'', ''PC3'', ''PC4'', ''PC5'', ''PC6'']"
    "length (df_rows (fst toy_pca_result)) = length (df_rows toy_wine)"
    by blast+
  from c h n r s show ?thesis
    by simp
qed

subsection \<open>C2: the top half of the features by importance\<close>

text \<open>
  Claim C2, as amended. Let the frame read from the input have \<open>n\<close> feature columns (the
  columns other than \<open>quality\<close>), of which \<open>m\<close> have a statistic in the imputer: at least
  one non-missing value and a finite mean. The imputer discards the other columns before
  the forest is fitted, so \<open>m \<le> n\<close>, with \<open>m = n\<close> exactly when every feature column has
  a statistic. The forest gives \<open>m\<close> importances. Whenever
  \<^verbatim>\<open>feature_selection_and_split\<close> returns, the selected frame has exactly \<open>m div 2\<close>
  columns, named \<open>Feature_1\<close> to \<open>Feature_k\<close>, and one row per row of the input. Its
  cells are the imputed cells of the columns \<open>selected_indices\<close>: \<open>m div 2\<close> different
  columns, listed by descending importance, and every column that is not selected has an
  importance no higher than that of any selected column. The order of columns of equal
  importance is the one numpy's argsort leaves, which the parameter \<open>argsort_tie\<close> fixes.
  The function returns when the library calls succeed, the rows of the frame read are
  labelled \<open>0, 1, ...\<close>, there are at least 2 of them and the three files can be written.

  The claim as stated (\<open>n div 2\<close> features for \<open>n\<close> feature columns) fails on an input
  with an entirely missing column, as the counterexample after the theorem shows.
\<close>

theorem top_half_of_features_selected:
  fixes lib :: "('a, 'b::linorder) libraries"
  assumes csv: "read_csv lib inp = Inr wine_quality"
    and features: "drop_columns wine_quality ''quality'' = Inr features"
    and imputed: "SimpleImputer_fit_transform lib features = Inr X"
    and labels: "getitem wine_quality ''quality'' = Inr y"
    and fitted: "RandomForestClassifier_fit lib n_est X (map snd (s_rows y)) = Inr importances"
  defines "n \<equiv> length (df_columns features)"
  defines "m \<equiv> length (valid_columns (np_mean lib) (df_values features) n)"
  defines "sel \<equiv> selected_indices (argsort_tie lib) importances"
  shows "n = length (filter (\<lambda>c. c \<noteq> ''quality'') (df_columns wine_quality)) \<and> m \<le> n \<and>
     (m = n \<longleftrightarrow> (\<forall>j < n. statistics (np_mean lib) (df_values features) j \<noteq> None)) \<and>
     snd (shape X) = m \<and> length importances = m \<and>
     length sel = m div 2 \<and> distinct sel \<and> set sel \<subseteq> {0..<m} \<and>
     sorted (rev (map (\<lambda>j. importances ! j) sel)) \<and>
     (\<forall>j \<in> set sel. \<forall>j' < m. j' \<notin> set sel \<longrightarrow> importances ! j' \<le> importances ! j) \<and>
     (df_index wine_quality = RangeIndex (length (df_rows wine_quality)) \<and>
      2 \<le> length (df_rows wine_quality) \<and>
      write_fault fs (P @ ''.csv'') = None \<and> write_fault fs (P @ ''_train.csv'') = None \<and>
      write_fault fs (P @ ''_test.csv'') = None \<longrightarrow>
      (\<exists>res. fst (feature_selection_and_split lib fs inp P n_est) = Inr res)) \<and>
     (\<forall>X_df y_df X_train X_test y_train y_test.
        fst (feature_selection_and_split lib fs inp P n_est) =
          Inr (X_df, y_df, X_train, X_test, y_train, y_test) \<longrightarrow>
        df_columns X_df = map (\<lambda>i. ''Feature_'' @ str_nat (i + 1)) [0..<m div 2] \<and>
        length (df_columns X_df) = m div 2 \<and>
        (\<forall>r \<in> set (df_values X_df). length r = m div 2) \<and>
        length (df_rows X_df) = length (df_rows wine_quality) \<and>
        df_values X_df = map (\<lambda>r. map (\<lambda>j. r ! j) sel) X)"
proof -
  have n: "n = length (filter (\<lambda>c. c \<noteq> ''quality'') (df_columns wine_quality))"
    unfolding n_def using drop_columns_rows [OF features] by simp
  have mn: "m \<le> n"
    unfolding m_def by (rule length_valid_columns)
  have full: "m = n \<longleftrightarrow> (\<forall>j < n. statistics (np_mean lib) (df_values features) j \<noteq> None)"
  proof
    assume "m = n"
    then have "length (filter (\<lambda>j. statistics (np_mean lib) (df_values features) j \<noteq> None) [0..<n]) =
        length [0..<n]"
      unfolding m_def valid_columns_def by simp
    then have "filter (\<lambda>j. statistics (np_mean lib) (df_values features) j \<noteq> None) [0..<n] = [0..<n]"
      by (rule filter_full)
    then show "\<forall>j < n. statistics (np_mean lib) (df_values features) j \<noteq> None"
      by (simp add: filter_id_conv)
  next
    assume "\<forall>j < n. statistics (np_mean lib) (df_values features) j \<noteq> None"
    then have "filter (\<lambda>j. statistics (np_mean lib) (df_values features) j \<noteq> None) [0..<n] = [0..<n]"
      by (simp add: filter_id_conv)
    then show "m = n"
      unfolding m_def valid_columns_def by simp
  qed
  have w: "snd (shape X) = m"
    unfolding m_def n_def by (rule imputed_width(1) [OF imputed])
  have li: "length importances = m"
    using RandomForestClassifier_fit_Inr [OF fitted] w by simp
  have s1: "length sel = m div 2" and s2: "distinct sel" and s3: "set sel \<subseteq> {0..<m}"
    and s4: "sorted (rev (map (\<lambda>j. importances ! j) sel))"
    unfolding sel_def
    using length_selected_indices [of "argsort_tie lib" importances]
      distinct_selected_indices [of "argsort_tie lib" importances]
      set_selected_indices [of "argsort_tie lib" importances]
      sorted_selected_indices [of importances "argsort_tie lib"]
    by (simp_all add: li)
  have s5: "\<forall>j \<in> set sel. \<forall>j' < m. j' \<notin> set sel \<longrightarrow> importances ! j' \<le> importances ! j"
    unfolding sel_def using selected_indices_top [of _ "argsort_tie lib" importances] li by blast
  have ret: "\<exists>res. fst (feature_selection_and_split lib fs inp P n_est) = Inr res"
    if "df_index wine_quality = RangeIndex (length (df_rows wine_quality)) \<and>
      2 \<le> length (df_rows wine_quality) \<and>
      write_fault fs (P @ ''.csv'') = None \<and> write_fault fs (P @ ''_train.csv'') = None \<and>
      write_fault fs (P @ ''_test.csv'') = None"
  proof -
    from that have a: "df_index wine_quality = RangeIndex (length (df_rows wine_quality))"
      and b: "2 \<le> length (df_rows wine_quality)"
      and c: "write_fault fs (P @ ''.csv'') = None" "write_fault fs (P @ ''_train.csv'') = None"
        "write_fault fs (P @ ''_test.csv'') = None"
      by simp_all
    show ?thesis
      by (rule feature_selection_and_split_returns [OF csv features imputed labels fitted a b c])
  qed
  have lX: "length X = length (df_rows wine_quality)"
    using length_imputed [OF imputed] drop_columns_rows [OF features] by simp
  have res: "df_columns X_df = map (\<lambda>i. ''Feature_'' @ str_nat (i + 1)) [0..<m div 2] \<and>
        length (df_columns X_df) = m div 2 \<and>
        (\<forall>r \<in> set (df_values X_df). length r = m div 2) \<and>
        length (df_rows X_df) = length (df_rows wine_quality) \<and>
        df_values X_df = map (\<lambda>r. map (\<lambda>j. r ! j) sel) X"
    if r: "fst (feature_selection_and_split lib fs inp P n_est) =
          Inr (X_df, y_df, X_train, X_test, y_train, y_test)"
    for X_df y_df X_train X_test y_train y_test
  proof -
    from feature_selection_and_split_Inr [OF r] obtain X' y' where
      fr: "selected_frames lib inp n_est = Inr (X', y')"
      and eq: "feature_selection_and_split lib fs inp P n_est =
               save_and_split (rng_interval lib) X' y' P fs"
      by blast
    from r [unfolded eq] have "X' = X_df"
      by (auto dest!: save_and_split_Inr)
    with fr selected_frames_given [OF csv features imputed labels fitted] have
      X: "X_df = \<lparr>df_columns = map (\<lambda>i. ''Feature_'' @ str_nat (i + 1)) [0..<m div 2],
           df_rows = zip (RangeIndex (length X)) (map (\<lambda>r. map (\<lambda>j. r ! j) sel) X)\<rparr>"
      by (simp add: li sel_def)
    have v: "df_values X_df = map (\<lambda>r. map (\<lambda>j. r ! j) sel) X"
      unfolding X by (simp add: df_values_def length_RangeIndex)
    have "\<forall>r \<in> set (df_values X_df). length r = m div 2"
      unfolding v using s1 by auto
    then show ?thesis
      using v by (simp add: X length_RangeIndex lX)
  qed
  show ?thesis
    using n mn full w li s1 s2 s3 s4 s5 ret res by blast
qed

theorem top_half_of_features_selected_witness:
  "read_csv toy ''wine.csv'' = Inr toy_wine \<and>
   length (filter (\<lambda>c. c \<noteq> ''quality'') (df_columns toy_wine)) = 6 \<and>
   fst (feature_selection_and_split toy toy_fs ''wine.csv'' ''out'' 250) = Inr toy_selected_result \<and>
   df_columns (fst toy_selected_result) = [''Feature_1'', ''Feature_2'', ''Feature_3''] \<and>
   length (df_columns (fst toy_selected_result)) = 3 \<and>
   (\<exists>res. fst (feature_selection_and_split toy toy_fs ''wine.csv'' ''out'' 250) = Inr res)"
proof -
  let ?features = "projr (drop_columns toy_wine ''quality'')"
  let ?X = "projr (SimpleImputer_fit_transform toy ?features)"
  let ?y = "projr (getitem toy_wine ''quality'')"
  let ?imps = "projr (RandomForestClassifier_fit toy 250 ?X (map snd (s_rows ?y)))"
  have c: "read_csv toy ''wine.csv'' = Inr toy_wine"
    by code_simp
  have d: "drop_columns toy_wine ''quality'' = Inr ?features"
    by code_simp
  have i: "SimpleImputer_fit_transform toy ?features = Inr ?X"
    by code_simp
  have g: "getitem toy_wine ''quality'' = Inr ?y"
    by code_simp
  have f: "RandomForestClassifier_fit toy 250 ?X (map snd (s_rows ?y)) = Inr ?imps"
    by code_simp
  have h: "fst (feature_selection_and_split toy toy_fs ''wine.csv'' ''out'' 250) =
      Inr toy_selected_result"
    by code_simp
  have n: "length (filter (\<lambda>c. c \<noteq> ''quality'') (df_columns toy_wine)) = 6"
    by code_simp
  have m: "length (valid_columns (np_mean toy) (df_values ?features) (length (df_columns ?features))) = 6"
    by code_simp
  have names: "map (\<lambda>i. ''Feature_'' @ str_nat (i + 1)) [0..<6 div 2] =
      [''Feature_1'', ''Feature_2'', ''Feature_3'']"
    by code_simp
  have v: "df_index toy_wine = RangeIndex (length (df_rows toy_wine))"
    "2 \<le> length (df_rows toy_wine)"
    by code_simp+
  have w: "write_fault toy_fs (''out'' @ ''.csv'') = None"
    "write_fault toy_fs (''out'' @ ''_train.csv'') = None"
    "write_fault toy_fs (''out'' @ ''_test.csv'') = None"
    by (simp_all add: toy_fs_def)
  note t = top_half_of_features_selected [OF c d i g f, of toy_fs "''out''", unfolded m]
  from t v w have r: "\<exists>res. fst (feature_selection_and_split toy toy_fs ''wine.csv'' ''out'' 250) = Inr res"
    by blast
  have e: "fst (feature_selection_and_split toy toy_fs ''wine.csv'' ''out'' 250) =
      Inr (fst toy_selected_result, fst (snd toy_selected_result),
           fst (snd (snd toy_selected_result)), fst (snd (snd (snd toy_selected_result))),
           fst (snd (snd (snd (snd toy_selected_result)))),
           snd (snd (snd (snd (snd toy_selected_result)))))"
    using h by simp
  from t e have "df_columns (fst toy_selected_result) =
      map (\<lambda>i. ''Feature_'' @ str_nat (i + 1)) [0..<6 div 2]"
    by blast
  then have s: "df_columns (fst toy_selected_result) = [''Feature_1'', ''Feature_2'', ''Feature_3'']"
    unfolding names .
  from c n h s r show ?thesis
    by simp
qed

theorem feature_count_counterexample:
  "read_csv toy ''gap.csv'' = Inr toy_gap \<and>
   length (filter (\<lambda>c. c \<noteq> ''quality'') (df_columns toy_gap)) = 4 \<and>
   map_sum id (\<lambda>res. df_columns (fst res))
     (fst (feature_selection_and_split toy toy_fs ''gap.csv'' ''out'' 250)) = Inr [''Feature_1''] \<and>
   map_sum id (\<lambda>res. df_values (fst res))
     (fst (feature_selection_and_split toy toy_fs ''gap.csv'' ''out'' 250)) =
     Inr [[Some 9], [Some 3], [Some 3]] \<and>
   length [''Feature_1''] \<noteq> 4 div 2"
  by code_simp

subsection \<open>C3: the split partitions the rows\<close>

text \<open>
  Claim C3. In both pipelines the train/test split (test fraction 0.1, seed 42) partitions
  the rows of the reduced dataset: whenever a pipeline returns, the rows of the train and
  the test frame together are exactly the rows of the full frame (as multisets, for the
  features and for the labels), the row labels of the full feature frame are distinct,
  every label is in the train or the test frame and none in both, so the two row counts
  add up to the total. The test frame has \<open>ceil(0.1 * total)\<close> rows, which differs from
  \<open>0.1 * total\<close> by less than one row and is \<open>round(0.1 * total)\<close> or one more. The label
  frames are cut at the same positions as the feature frames; they carry the same row
  labels as the feature frames in the PCA pipeline, and in the feature selection whenever
  the full label frame does.
\<close>

theorem split_is_partition:
  assumes "fst (process_heart_disease_data lib g fs inp P) = Inr (X, y, X_train, X_test, y_train, y_test)
         \<or> fst (feature_selection_and_split lib fs inp P n_est) =
             Inr (X, y, X_train, X_test, y_train, y_test)"
  shows "mset (df_rows X_train) + mset (df_rows X_test) = mset (df_rows X) \<and>
         mset (df_rows y_train) + mset (df_rows y_test) = mset (df_rows y) \<and>
         distinct (df_index X) \<and>
         (fst (process_heart_disease_data lib g fs inp P) =
            Inr (X, y, X_train, X_test, y_train, y_test) \<longrightarrow> df_index y = df_index X) \<and>
         set (df_index X_train) \<union> set (df_index X_test) = set (df_index X) \<and>
         set (df_index X_train) \<inter> set (df_index X_test) = {} \<and>
         distinct (df_index X_train) \<and> distinct (df_index X_test) \<and>
         (df_index y = df_index X \<longrightarrow>
            df_index y_train = df_index X_train \<and> df_index y_test = df_index X_test) \<and>
         length (df_rows y) = length (df_rows X) \<and>
         length (df_rows y_train) = length (df_rows X_train) \<and>
         length (df_rows y_test) = length (df_rows X_test) \<and>
         length (df_rows X_train) + length (df_rows X_test) = length (df_rows X) \<and>
         length (df_rows X_test) = (length (df_rows X) + 9) div 10 \<and>
         length (df_rows X) \<le> 10 * length (df_rows X_test) \<and>
         10 * length (df_rows X_test) < length (df_rows X) + 10 \<and>
         round (real (length (df_rows X)) / 10) \<le> int (length (df_rows X_test)) \<and>
         int (length (df_rows X_test)) \<le> round (real (length (df_rows X)) / 10) + 1"
proof -
  note fr = pipeline_frames [OF assms]
  note sp = split_partition [OF fr]
  have ly: "length (df_rows y) = length (df_rows X)"
    using train_test_split_Inr(1) [OF fr(1)] .
  have "distinct (df_index X)"
    using fr(2) by (simp add: distinct_RangeIndex)
  moreover have "length (df_rows X) \<le> 10 * length (df_rows X_test)"
    "10 * length (df_rows X_test) < length (df_rows X) + 10"
    unfolding sp(8) by presburger+
  ultimately show ?thesis
    using sp ly pca_label_frame [of lib g fs inp P X y X_train X_test y_train y_test]
      ceil_tenth_near_round [OF sp(8)] by simp
qed

theorem split_is_partition_witness:
  "fst (process_heart_disease_data toy 0 toy_fs ''wine.csv'' ''out'') = Inr toy_pca_result \<and>
   set (df_index (fst (snd (snd toy_pca_result)))) \<inter>
     set (df_index (fst (snd (snd (snd toy_pca_result))))) = {} \<and>
   length (df_rows (fst (snd (snd toy_pca_result)))) = 6 \<and>
   length (df_rows (fst (snd (snd (snd toy_pca_result))))) = 1 \<and>
   df_index (fst (snd (snd (snd (snd toy_pca_result))))) =
     df_index (fst (snd (snd toy_pca_result))) \<and>
   fst (feature_selection_and_split toy toy_fs ''wine.csv'' ''out'' 250) = Inr toy_selected_result \<and>
   set (df_index (fst (snd (snd toy_selected_result)))) \<inter>
     set (df_index (fst (snd (snd (snd toy_selected_result))))) = {} \<and>
   length (df_rows (fst (snd (snd toy_selected_result)))) = 6 \<and>
   length (df_rows (fst (snd (snd (snd toy_selected_result))))) = 1 \<and>
   df_index (fst (snd (snd (snd (snd toy_selected_result))))) =
     df_index (fst (snd (snd toy_selected_result)))"
proof -
  have h: "fst (process_heart_disease_data toy 0 toy_fs ''wine.csv'' ''out'') = Inr toy_pca_result"
    by code_simp
  have n: "length (df_rows (fst toy_pca_result)) = 7"
    by code_simp
  have h2: "fst (feature_selection_and_split toy toy_fs ''wine.csv'' ''out'' 250) =
      Inr toy_selected_result"
    by code_simp
  have n2: "length (df_rows (fst toy_selected_result)) = 7"
    by code_simp
  have i2: "df_index (fst (snd toy_selected_result)) = df_index (fst toy_selected_result)"
    by code_simp
  have e: "fst (process_heart_disease_data toy 0 toy_fs ''wine.csv'' ''out'') =
      Inr (fst toy_pca_result, fst (snd toy_pca_result), fst (snd (snd toy_pca_result)),
           fst (snd (snd (snd toy_pca_result))), fst (snd (snd (snd (snd toy_pca_result)))),
           snd (snd (snd (snd (snd toy_pca_result)))))"
    using h by simp
  note a = split_is_partition [OF disjI1 [OF e]]
  have e2: "fst (feature_selection_and_split toy toy_fs ''wine.csv'' ''out'' 250) =
      Inr (fst toy_selected_result, fst (snd toy_selected_result),
           fst (snd (snd toy_selected_result)), fst (snd (snd (snd toy_selected_result))),
           fst (snd (snd (snd (snd toy_selected_result)))),
           snd (snd (snd (snd (snd toy_selected_result)))))"
    using h2 by simp
  note b = split_is_partition [where g = 0, OF disjI2 [OF e2]]
  from a have a1: "set (df_index (fst (snd (snd toy_pca_result)))) \<inter>
     set (df_index (fst (snd (snd (snd toy_pca_result))))) = {}"
    by blast
  from a n have a2: "length (df_rows (fst (snd (snd (snd toy_pca_result))))) = 1"
    by simp
  from a n a2 have a3: "length (df_rows (fst (snd (snd toy_pca_result)))) = 6"
    by simp
  from a e have a4: "df_index (fst (snd (snd (snd (snd toy_pca_result))))) =
     df_index (fst (snd (snd toy_pca_result)))"
    by blast
  from b have b1: "set (df_index (fst (snd (snd toy_selected_result)))) \<inter>
     set (df_index (fst (snd (snd (snd toy_selected_result))))) = {}"
    by blast
  from b n2 have b2: "length (df_rows (fst (snd (snd (snd toy_selected_result))))) = 1"
    by simp
  from b n2 b2 have b3: "length (df_rows (fst (snd (snd toy_selected_result)))) = 6"
    by simp
  from b i2 have b4: "df_index (fst (snd (snd (snd (snd toy_selected_result))))) =
     df_index (fst (snd (snd toy_selected_result)))"
    by blast
  from h h2 a1 a2 a3 a4 b1 b2 b3 b4 show ?thesis
    by blast
qed

subsection \<open>C4: imputation\<close>




subsection \<open>C6: the three CSV files\<close>

text \<open>
  Claim C6. An invocation with output prefix \<open>P\<close> that returns has written exactly three
  files, \<open>P.csv\<close>, \<open>P_train.csv\<close> and \<open>P_test.csv\<close> (three different paths; no other
  path has changed, and whatever was at the three paths before is replaced). \<open>P.csv\<close>
  holds the join of the full reduced features with the \<open>quality\<close> column, the other two
  the joins of the train and of the test subset. Each file is complete and has a header
  row, the names of the feature columns followed by \<open>quality\<close>, and every record has
  exactly one field per name: there is no field for the row label. When the label frame
  carries the row labels of the feature frame, which is always so in the PCA pipeline,
  every record is the feature cells of a row followed by its label cell, the full file
  has one record per row, and the records of the train and the test file together are
  those of the full file. The statement is for both pipelines.
\<close>

theorem three_csv_files:
  fixes lib :: "('a, 'b::linorder) libraries"
  shows "(fst (process_heart_disease_data lib g fs inp P) = Inr res \<longrightarrow>
      three_files_written P res fs (snd (process_heart_disease_data lib g fs inp P)) \<and>
      df_index (fst (snd res)) = df_index (fst res)) \<and>
   (fst (feature_selection_and_split lib fs inp P n_est) = Inr res' \<longrightarrow>
      three_files_written P res' fs (snd (feature_selection_and_split lib fs inp P n_est)))"
proof (rule conjI; rule impI)
  assume a: "fst (process_heart_disease_data lib g fs inp P) = Inr res"
  from process_heart_disease_data_Inr [OF a] obtain X y where
    fr: "pca_frames lib g inp = Inr (X, y)"
    and eq: "process_heart_disease_data lib g fs inp P = save_and_split (rng_interval lib) X y P fs"
    by blast
  note wf = frames_well_formed [OF disjI1 [OF fr]]
  have i: "df_index X = RangeIndex (length (df_rows X))" and e: "df_index y = df_index X"
    using pca_frames_Inr [OF fr] by (auto simp: df_index_def df_values_def length_RangeIndex)
  from a [unfolded eq] have "fst res = X" "fst (snd res) = y"
    by (auto dest!: save_and_split_Inr)
  with e have "df_index (fst (snd res)) = df_index (fst res)"
    by simp
  moreover have "three_files_written P res fs (snd (process_heart_disease_data lib g fs inp P))"
    using a unfolding eq by (rule save_and_split_written [OF _ i wf])
  ultimately show "three_files_written P res fs (snd (process_heart_disease_data lib g fs inp P)) \<and>
      df_index (fst (snd res)) = df_index (fst res)"
    by simp
next
  assume a: "fst (feature_selection_and_split lib fs inp P n_est) = Inr res'"
  from feature_selection_and_split_Inr [OF a] obtain X y where
    fr: "selected_frames lib inp n_est = Inr (X, y)"
    and eq: "feature_selection_and_split lib fs inp P n_est =
             save_and_split (rng_interval lib) X y P fs"
    by blast
  note wf = frames_well_formed [OF disjI2 [OF fr]]
  have i: "df_index X = RangeIndex (length (df_rows X))"
    using selected_frames_Inr [OF fr] by (auto simp: df_index_def length_RangeIndex)
  show "three_files_written P res' fs (snd (feature_selection_and_split lib fs inp P n_est))"
    using a unfolding eq by (rule save_and_split_written [OF _ i wf])
qed

theorem three_csv_files_witness:
  "fst (process_heart_disease_data toy 0 toy_fs ''wine.csv'' ''out'') = Inr toy_pca_result \<and>
   fst (feature_selection_and_split toy toy_fs ''wine.csv'' ''out'' 250) = Inr toy_selected_result \<and>
   files (snd (process_heart_disease_data toy 0 toy_fs ''wine.csv'' ''out'')) ''out_test.csv'' =
     Some (Csv [''PC1'', ''PC2'', ''PC3'', ''PC4'', ''PC5'', ''PC6'', ''quality'']
               [[Some 2, Some (11 / 6), Some (- 1), Some (- 3), Some 3, Some 1, Some 6]]) \<and>
   files (snd (feature_selection_and_split toy toy_fs ''wine.csv'' ''out'' 250)) ''out_test.csv'' =
     Some (Csv [''Feature_1'', ''Feature_2'', ''Feature_3'', ''quality'']
               [[Some 6, Some 7, Some 0, Some 6]]) \<and>
   files toy_fs ''notes.csv'' = Some (Csv [''n''] []) \<and>
   files (snd (process_heart_disease_data toy 0 toy_fs ''wine.csv'' ''out'')) ''notes.csv'' =
     Some (Csv [''n''] []) \<and>
   files toy_fs ''out.csv'' = Some (Csv [''old''] [[Some 0]]) \<and>
   length (records (files (snd (process_heart_disease_data toy 0 toy_fs ''wine.csv'' ''out''))
     ''out.csv'')) = 7"
proof -
  let ?pca = "(fst toy_pca_result, fst (snd toy_pca_result), fst (snd (snd toy_pca_result)),
           fst (snd (snd (snd toy_pca_result))), fst (snd (snd (snd (snd toy_pca_result)))),
           snd (snd (snd (snd (snd toy_pca_result)))))"
  let ?sel = "(fst toy_selected_result, fst (snd toy_selected_result),
           fst (snd (snd toy_selected_result)), fst (snd (snd (snd toy_selected_result))),
           fst (snd (snd (snd (snd toy_selected_result)))),
           snd (snd (snd (snd (snd toy_selected_result)))))"
  have h1: "fst (process_heart_disease_data toy 0 toy_fs ''wine.csv'' ''out'') = Inr toy_pca_result"
    by code_simp
  have h2: "fst (feature_selection_and_split toy toy_fs ''wine.csv'' ''out'' 250) =
      Inr toy_selected_result"
    by code_simp
  have e1: "fst (process_heart_disease_data toy 0 toy_fs ''wine.csv'' ''out'') = Inr ?pca"
    unfolding h1 by simp
  have e2: "fst (feature_selection_and_split toy toy_fs ''wine.csv'' ''out'' 250) = Inr ?sel"
    unfolding h2 by simp
  have t1: "table_of (fst (snd (snd (snd toy_pca_result))))
                     (snd (snd (snd (snd (snd toy_pca_result))))) =
      Csv [''PC1'', ''PC2'', ''PC3'', ''PC4'', ''PC5'', ''PC6'', ''quality'']
          [[Some 2, Some (11 / 6), Some (- 1), Some (- 3), Some 3, Some 1, Some 6]]"
    by code_simp
  have t2: "table_of (fst (snd (snd (snd toy_selected_result))))
                     (snd (snd (snd (snd (snd toy_selected_result))))) =
      Csv [''Feature_1'', ''Feature_2'', ''Feature_3'', ''quality'']
          [[Some 6, Some 7, Some 0, Some 6]]"
    by code_simp
  have i2: "df_index (fst (snd toy_selected_result)) = df_index (fst toy_selected_result)"
    by code_simp
  have n: "length (df_rows (fst toy_pca_result)) = 7"
    by code_simp
  have o: "files toy_fs ''notes.csv'' = Some (Csv [''n''] [])"
    "files toy_fs ''out.csv'' = Some (Csv [''old''] [[Some 0]])"
    by (simp_all add: toy_fs_def)
  note w = three_csv_files [of toy 0 toy_fs "''wine.csv''" "''out''" ?pca 250 ?sel]
  from w have "three_files_written ''out'' ?pca toy_fs
      (snd (process_heart_disease_data toy 0 toy_fs ''wine.csv'' ''out'')) \<and>
      df_index (fst (snd ?pca)) = df_index (fst ?pca)"
    by (rule conjunct1 [THEN mp]) (rule e1)
  then have w1: "three_files_written ''out'' ?pca toy_fs
      (snd (process_heart_disease_data toy 0 toy_fs ''wine.csv'' ''out''))"
    and i1: "df_index (fst (snd toy_pca_result)) = df_index (fst toy_pca_result)"
    by simp_all
  from w have w2: "three_files_written ''out'' ?sel toy_fs
      (snd (feature_selection_and_split toy toy_fs ''wine.csv'' ''out'' 250))"
    by (rule conjunct2 [THEN mp]) (rule e2)
  have f1: "files (snd (process_heart_disease_data toy 0 toy_fs ''wine.csv'' ''out''))
      (''out'' @ ''_test.csv'') =
      Some (table_of (fst (snd (snd (snd toy_pca_result))))
                     (snd (snd (snd (snd (snd toy_pca_result))))))"
    by (rule three_files_writtenD(4) [OF w1 i1])
  have f2: "files (snd (feature_selection_and_split toy toy_fs ''wine.csv'' ''out'' 250))
      (''out'' @ ''_test.csv'') =
      Some (table_of (fst (snd (snd (snd toy_selected_result))))
                     (snd (snd (snd (snd (snd toy_selected_result))))))"
    by (rule three_files_writtenD(4) [OF w2 i2])
  have f3: "files (snd (process_heart_disease_data toy 0 toy_fs ''wine.csv'' ''out'')) ''notes.csv'' =
      files toy_fs ''notes.csv''"
    by (rule three_files_writtenD(1) [OF w1]) simp
  have f4: "length (records (files (snd (process_heart_disease_data toy 0 toy_fs ''wine.csv'' ''out''))
     (''out'' @ ''.csv''))) = length (df_rows (fst toy_pca_result))"
    by (rule three_files_writtenD(5) [OF w1 i1])
  have a: "''out'' @ ''_test.csv'' = ''out_test.csv''" "''out'' @ ''.csv'' = ''out.csv''"
    by simp_all
  show ?thesis
    using h1 h2 f1 [unfolded a t1] f2 [unfolded a t2] f3 [unfolded o] f4 [unfolded a n] o
    by (intro conjI) assumption+
qed

subsection \<open>C7: fewer than six usable dimensions\<close>

text \<open>
  Claim C7. When the imputed feature matrix of the input has fewer than 6 rows or fewer
  than 6 columns, the PCA step of \<^verbatim>\<open>process_heart_disease_data\<close> raises ValueError, the
  function fails with it rather than returning a result, and no file is written. The
  imputed matrix has as many rows as the frame that was read and at most as many columns
  as that frame has feature columns (the imputer discards the columns without a mean), so
  this is the case when the input has fewer than 6 rows or fewer than 6 feature columns.
\<close>

theorem pca_fails_below_six_dimensions:
  assumes csv: "read_csv lib inp = Inr wine_quality"
    and features: "drop_columns wine_quality ''quality'' = Inr features"
    and imputed: "SimpleImputer_fit_transform lib features = Inr X"
    and few: "fst (shape X) < 6 \<or> snd (shape X) < 6"
  shows "PCA_fit_transform lib g 6 X = Inl ValueError \<and>
         process_heart_disease_data lib g fs inp P = (Inl ValueError, fs) \<and>
         fst (shape X) = length (df_rows wine_quality) \<and>
         snd (shape X) \<le> length (df_columns features) \<and>
         length (df_columns features) = length (filter (\<lambda>n. n \<noteq> ''quality'') (df_columns wine_quality))"
proof -
  have p: "PCA_fit_transform lib g 6 X = Inl ValueError"
    using few unfolding PCA_fit_transform_def by (auto split: prod.splits)
  from drop_columns_rows [OF features] obtain q where
    q: "col_position ''quality'' (df_columns wine_quality) = Some q"
    using col_position_None [of "''quality''" "df_columns wine_quality"]
    by (cases "col_position ''quality'' (df_columns wine_quality)") auto
  then obtain y where y: "getitem wine_quality ''quality'' = Inr y"
    by (simp add: getitem_def)
  have "pca_frames lib g inp = Inl ValueError"
    unfolding pca_frames_def by (simp add: csv y features imputed p)
  then have r: "process_heart_disease_data lib g fs inp P = (Inl ValueError, fs)"
    unfolding process_heart_disease_data_def by simp
  have "fst (shape X) = length (df_rows wine_quality)"
    using imputed_width(2) [OF imputed] drop_columns_rows [OF features] by simp
  moreover have "snd (shape X) \<le> length (df_columns features)"
    unfolding imputed_width(1) [OF imputed] by (rule length_valid_columns)
  moreover have "length (df_columns features) =
      length (filter (\<lambda>n. n \<noteq> ''quality'') (df_columns wine_quality))"
    using drop_columns_rows [OF features] by simp
  ultimately show ?thesis
    using p r by simp
qed

theorem pca_fails_below_six_dimensions_witness:
  "read_csv toy ''small.csv'' = Inr toy_small \<and>
   drop_columns toy_small ''quality'' =
     Inr \<lparr>df_columns = [''a'', ''b''],
          df_rows = [(Pos 0, [Some 1, Some 2]), (Pos 1, [Some 3, None])]\<rparr> \<and>
   SimpleImputer_fit_transform toy
     \<lparr>df_columns = [''a'', ''b''],
      df_rows = [(Pos 0, [Some 1, Some 2]), (Pos 1, [Some 3, None])]\<rparr> =
     Inr [[Some 1, Some 2], [Some 3, Some 2]] \<and>
   shape [[Some 1, Some 2], [Some 3, Some (2::rat)]] = (2, 2) \<and>
   process_heart_disease_data toy 0 toy_fs ''small.csv'' ''out'' = (Inl ValueError, toy_fs)"
proof -
  have c: "read_csv toy ''small.csv'' = Inr toy_small"
    by code_simp
  have d: "drop_columns toy_small ''quality'' =
     Inr \<lparr>df_columns = [''a'', ''b''],
          df_rows = [(Pos 0, [Some 1, Some 2]), (Pos 1, [Some 3, None])]\<rparr>"
    by code_simp
  have i: "SimpleImputer_fit_transform toy
     \<lparr>df_columns = [''a'', ''b''],
      df_rows = [(Pos 0, [Some 1, Some 2]), (Pos 1, [Some 3, None])]\<rparr> =
     Inr [[Some 1, Some 2], [Some 3, Some 2]]"
    by code_simp
  have s: "shape [[Some 1, Some 2], [Some 3, Some (2::rat)]] = (2, 2)"
    by (simp add: shape_def)
  have f: "fst (shape [[Some 1, Some 2], [Some 3, Some (2::rat)]]) < 6 \<or>
      snd (shape [[Some 1, Some 2], [Some 3, Some (2::rat)]]) < 6"
    by (simp add: s)
  from pca_fails_below_six_dimensions [OF c d i f, of 0 toy_fs "''out''"]
  have "process_heart_disease_data toy 0 toy_fs ''small.csv'' ''out'' = (Inl ValueError, toy_fs)"
    by blast
  with c d i s show ?thesis
    by blast
qed

subsection \<open>C9: a failure aborts the invocation and keeps what was written\<close>

text \<open>
  Claim C9. Neither function catches an exception, so the error of the first library call
  that fails is what the invocation returns, and nothing after that call is executed.
  \<^item> An error of \<^verbatim>\<open>pd.read_csv\<close> (a missing, empty or malformed file) is returned as it
    is by both functions, and no file is written.
  \<^item> A frame without a \<open>quality\<close> column gives KeyError, and no file is written.
  \<^item> An error of the imputer, and any other error before the first write (of the PCA, of
    the forest), is returned as it is, and no file is written.
  \<^item> An error of the split after the first write is returned as it is, and the file
    system is the initial one with the complete \<open>P.csv\<close>.
  \<^item> Whatever the failure, the file system that it leaves is \<open>left_after\<close>: the files
    written before the failure are complete and hold what the invocation wrote, the file
    whose write failed is as it was or cut off (then the error is OSError), and nothing
    else has changed. At most two files are complete, since a third successful write
    ends the function.
\<close>

theorem failure_aborts_and_keeps_written_files:
  fixes lib :: "('a, 'b::linorder) libraries"
  shows
  "(read_csv lib inp = Inl e \<longrightarrow>
      process_heart_disease_data lib g fs inp P = (Inl e, fs) \<and>
      feature_selection_and_split lib fs inp P n_est = (Inl e, fs)) \<and>
   (\<forall>wq. read_csv lib inp = Inr wq \<and> ''quality'' \<notin> set (df_columns wq) \<longrightarrow>
      process_heart_disease_data lib g fs inp P = (Inl KeyError, fs) \<and>
      feature_selection_and_split lib fs inp P n_est = (Inl KeyError, fs)) \<and>
   (\<forall>wq features. read_csv lib inp = Inr wq \<and> drop_columns wq ''quality'' = Inr features \<and>
      SimpleImputer_fit_transform lib features = Inl e \<longrightarrow>
      process_heart_disease_data lib g fs inp P = (Inl e, fs) \<and>
      feature_selection_and_split lib fs inp P n_est = (Inl e, fs)) \<and>
   (pca_frames lib g inp = Inl e \<longrightarrow> process_heart_disease_data lib g fs inp P = (Inl e, fs)) \<and>
   (selected_frames lib inp n_est = Inl e \<longrightarrow>
      feature_selection_and_split lib fs inp P n_est = (Inl e, fs)) \<and>
   (\<forall>X y c. (pca_frames lib g inp = Inr (X, y) \<longrightarrow>
        concat_axis1 X y = Inr c \<and> write_fault fs (P @ ''.csv'') = None \<and>
        train_test_split (rng_interval lib) X y = Inl e \<longrightarrow>
        process_heart_disease_data lib g fs inp P =
          (Inl e, fs\<lparr>files := (files fs)(P @ ''.csv'' \<mapsto> Csv (df_columns c) (df_values c))\<rparr>)) \<and>
      (selected_frames lib inp n_est = Inr (X, y) \<longrightarrow>
        concat_axis1 X y = Inr c \<and> write_fault fs (P @ ''.csv'') = None \<and>
        train_test_split (rng_interval lib) X y = Inl e \<longrightarrow>
        feature_selection_and_split lib fs inp P n_est =
          (Inl e, fs\<lparr>files := (files fs)(P @ ''.csv'' \<mapsto> Csv (df_columns c) (df_values c))\<rparr>))) \<and>
   (\<forall>X y. pca_frames lib g inp = Inr (X, y) \<and>
      fst (process_heart_disease_data lib g fs inp P) = Inl e \<longrightarrow>
      (\<exists>completed broken.
         completed \<le> 2 \<and> completed \<le> length (tables_to_write (rng_interval lib) X y) \<and>
         (broken \<noteq> None \<longrightarrow>
            e = OSError \<and> completed < length (tables_to_write (rng_interval lib) X y)) \<and>
         snd (process_heart_disease_data lib g fs inp P) =
           left_after completed broken P (tables_to_write (rng_interval lib) X y) fs)) \<and>
   (\<forall>X y. selected_frames lib inp n_est = Inr (X, y) \<and>
      fst (feature_selection_and_split lib fs inp P n_est) = Inl e \<longrightarrow>
      (\<exists>completed broken.
         completed \<le> 2 \<and> completed \<le> length (tables_to_write (rng_interval lib) X y) \<and>
         (broken \<noteq> None \<longrightarrow>
            e = OSError \<and> completed < length (tables_to_write (rng_interval lib) X y)) \<and>
         snd (feature_selection_and_split lib fs inp P n_est) =
           left_after completed broken P (tables_to_write (rng_interval lib) X y) fs))"
proof -
  have a: "process_heart_disease_data lib g fs inp P = (Inl e, fs) \<and>
      feature_selection_and_split lib fs inp P n_est = (Inl e, fs)"
    if "read_csv lib inp = Inl e"
    unfolding process_heart_disease_data_def feature_selection_and_split_def pca_frames_def
      selected_frames_def
    by (simp add: that)
  have b: "process_heart_disease_data lib g fs inp P = (Inl KeyError, fs) \<and>
      feature_selection_and_split lib fs inp P n_est = (Inl KeyError, fs)"
    if "read_csv lib inp = Inr wq \<and> ''quality'' \<notin> set (df_columns wq)" for wq
  proof -
    from that have r: "read_csv lib inp = Inr wq" and q: "''quality'' \<notin> set (df_columns wq)"
      by simp_all
    have "getitem wq ''quality'' = Inl KeyError" "drop_columns wq ''quality'' = Inl KeyError"
      using q by (simp_all add: getitem_def drop_columns_def col_position_None [THEN iffD2])
    then show ?thesis
      unfolding process_heart_disease_data_def feature_selection_and_split_def pca_frames_def
        selected_frames_def
      by (simp add: r)
  qed
  have c: "process_heart_disease_data lib g fs inp P = (Inl e, fs) \<and>
      feature_selection_and_split lib fs inp P n_est = (Inl e, fs)"
    if "read_csv lib inp = Inr wq \<and> drop_columns wq ''quality'' = Inr features \<and>
      SimpleImputer_fit_transform lib features = Inl e" for wq features
  proof -
    from that have r: "read_csv lib inp = Inr wq" and d: "drop_columns wq ''quality'' = Inr features"
      and i: "SimpleImputer_fit_transform lib features = Inl e"
      by simp_all
    from drop_columns_rows [OF d] obtain q where
      "col_position ''quality'' (df_columns wq) = Some q"
      using col_position_None [of "''quality''" "df_columns wq"]
      by (cases "col_position ''quality'' (df_columns wq)") auto
    then obtain y where y: "getitem wq ''quality'' = Inr y"
      by (simp add: getitem_def)
    show ?thesis
      unfolding process_heart_disease_data_def feature_selection_and_split_def pca_frames_def
        selected_frames_def
      by (simp add: r d i y)
  qed
  have d1: "process_heart_disease_data lib g fs inp P = (Inl e, fs)"
    if "pca_frames lib g inp = Inl e"
    unfolding process_heart_disease_data_def by (simp add: that)
  have d2: "feature_selection_and_split lib fs inp P n_est = (Inl e, fs)"
    if "selected_frames lib inp n_est = Inl e"
    unfolding feature_selection_and_split_def by (simp add: that)
  have s1: "process_heart_disease_data lib g fs inp P =
          (Inl e, fs\<lparr>files := (files fs)(P @ ''.csv'' \<mapsto> Csv (df_columns c) (df_values c))\<rparr>)"
    if "pca_frames lib g inp = Inr (X, y)"
      and "concat_axis1 X y = Inr c \<and> write_fault fs (P @ ''.csv'') = None \<and>
        train_test_split (rng_interval lib) X y = Inl e" for X y c
    unfolding process_heart_disease_data_def using that
    by (simp add: save_and_split_split_error)
  have s2: "feature_selection_and_split lib fs inp P n_est =
          (Inl e, fs\<lparr>files := (files fs)(P @ ''.csv'' \<mapsto> Csv (df_columns c) (df_values c))\<rparr>)"
    if "selected_frames lib inp n_est = Inr (X, y)"
      and "concat_axis1 X y = Inr c \<and> write_fault fs (P @ ''.csv'') = None \<and>
        train_test_split (rng_interval lib) X y = Inl e" for X y c
    unfolding feature_selection_and_split_def using that
    by (simp add: save_and_split_split_error)
  have l1: "\<exists>completed broken.
         completed \<le> 2 \<and> completed \<le> length (tables_to_write (rng_interval lib) X y) \<and>
         (broken \<noteq> None \<longrightarrow>
            e = OSError \<and> completed < length (tables_to_write (rng_interval lib) X y)) \<and>
         snd (process_heart_disease_data lib g fs inp P) =
           left_after completed broken P (tables_to_write (rng_interval lib) X y) fs"
    if "pca_frames lib g inp = Inr (X, y) \<and>
      fst (process_heart_disease_data lib g fs inp P) = Inl e" for X y
  proof -
    from that have fr: "pca_frames lib g inp = Inr (X, y)"
      and f: "fst (process_heart_disease_data lib g fs inp P) = Inl e"
      by simp_all
    have eq: "process_heart_disease_data lib g fs inp P = save_and_split (rng_interval lib) X y P fs"
      unfolding process_heart_disease_data_def by (simp add: fr)
    show ?thesis
      unfolding eq by (rule save_and_split_Inl [OF f [unfolded eq]])
  qed
  have l2: "\<exists>completed broken.
         completed \<le> 2 \<and> completed \<le> length (tables_to_write (rng_interval lib) X y) \<and>
         (broken \<noteq> None \<longrightarrow>
            e = OSError \<and> completed < length (tables_to_write (rng_interval lib) X y)) \<and>
         snd (feature_selection_and_split lib fs inp P n_est) =
           left_after completed broken P (tables_to_write (rng_interval lib) X y) fs"
    if "selected_frames lib inp n_est = Inr (X, y) \<and>
      fst (feature_selection_and_split lib fs inp P n_est) = Inl e" for X y
  proof -
    from that have fr: "selected_frames lib inp n_est = Inr (X, y)"
      and f: "fst (feature_selection_and_split lib fs inp P n_est) = Inl e"
      by simp_all
    have eq: "feature_selection_and_split lib fs inp P n_est =
        save_and_split (rng_interval lib) X y P fs"
      unfolding feature_selection_and_split_def by (simp add: fr)
    show ?thesis
      unfolding eq by (rule save_and_split_Inl [OF f [unfolded eq]])
  qed
  show ?thesis
    apply (intro conjI allI)
    subgoal by (rule impI) (rule a)
    subgoal by (rule impI) (rule b)
    subgoal by (rule impI) (rule c)
    subgoal by (rule impI) (rule d1)
    subgoal by (rule impI) (rule d2)
    subgoal by (intro impI) (rule s1)
    subgoal by (intro impI) (rule s2)
    subgoal by (rule impI) (rule l1)
    subgoal by (rule impI) (rule l2)
    done
qed

subsection \<open>C10: the forest size does not influence the split\<close>

text \<open>
  Claim C10. For a fixed input file, two runs of \<^verbatim>\<open>feature_selection_and_split\<close> that
  differ only in \<^verbatim>\<open>n_estimators_num\<close> and both return assign the same row labels to
  the train set and the same to the test set, and return the same label frames. The
  assignment is a function of the row count and of the seeded generator alone: the test
  labels are the first \<open>ceil(0.1 * n)\<close> entries of the permutation, the train labels
  the others. Only the selected feature columns can differ.
\<close>

theorem n_estimators_noninterference:
  assumes "fst (feature_selection_and_split lib fs inp P n1) =
             Inr (X, y, X_train, X_test, y_train, y_test)"
    and "fst (feature_selection_and_split lib fs inp P n2) =
             Inr (X', y', X_train', X_test', y_train', y_test')"
  shows "df_index X_train' = df_index X_train \<and> df_index X_test' = df_index X_test \<and>
         df_index X' = df_index X \<and> y' = y \<and> y_train' = y_train \<and> y_test' = y_test \<and>
         df_index X_train =
           map Pos (drop ((length (df_rows y) + 9) div 10)
                         (permutation (rng_interval lib) (length (df_rows y)))) \<and>
         df_index X_test =
           map Pos (take ((length (df_rows y) + 9) div 10)
                         (permutation (rng_interval lib) (length (df_rows y))))"
proof -
  have run: "train_test_split (rng_interval lib) A b = Inr (A1, A2, b1, b2) \<and>
      df_index A = RangeIndex (length (df_rows A)) \<and>
      (\<exists>wq q. read_csv lib inp = Inr wq \<and> col_position ''quality'' (df_columns wq) = Some q \<and>
         length (df_rows A) = length (df_rows wq) \<and>
         b = \<lparr>df_columns = [''quality''],
              df_rows = zip (df_index wq) (map (\<lambda>r. [r ! q]) (df_values wq))\<rparr>)"
    if "fst (feature_selection_and_split lib fs inp P n) = Inr (A, b, A1, A2, b1, b2)"
    for n A b A1 A2 b1 b2
  proof -
    from that obtain A' b' where fr: "selected_frames lib inp n = Inr (A', b')"
      and sv: "fst (save_and_split (rng_interval lib) A' b' P fs) = Inr (A, b, A1, A2, b1, b2)"
      unfolding feature_selection_and_split_def by (auto split: sum.splits)
    from save_and_split_Inr [OF sv] have eq: "A' = A" "b' = b"
      and sp: "train_test_split (rng_interval lib) A b = Inr (A1, A2, b1, b2)"
      by auto
    from selected_frames_Inr [OF fr [unfolded eq]] sp show ?thesis
      by (auto simp: df_index_def length_RangeIndex)
  qed
  from run [OF assms(1)] obtain wq q where
    s1: "train_test_split (rng_interval lib) X y = Inr (X_train, X_test, y_train, y_test)"
    and i1: "df_index X = RangeIndex (length (df_rows X))"
    and f1: "read_csv lib inp = Inr wq" "col_position ''quality'' (df_columns wq) = Some q"
    and n1: "length (df_rows X) = length (df_rows wq)"
    and y1: "y = \<lparr>df_columns = [''quality''],
              df_rows = zip (df_index wq) (map (\<lambda>r. [r ! q]) (df_values wq))\<rparr>"
    by blast
  from run [OF assms(2)] f1 have
    s2: "train_test_split (rng_interval lib) X' y' = Inr (X_train', X_test', y_train', y_test')"
    and i2: "df_index X' = RangeIndex (length (df_rows X'))"
    and n2: "length (df_rows X') = length (df_rows wq)"
    and y2: "y' = \<lparr>df_columns = [''quality''],
              df_rows = zip (df_index wq) (map (\<lambda>r. [r ! q]) (df_values wq))\<rparr>"
    by auto
  have ly: "length (df_rows y) = length (df_rows wq)"
    by (simp add: y1 df_index_def df_values_def)
  note a = split_indices(1,2) [OF s1 i1] train_test_split_Inr [OF s1]
  note b = split_indices(1,2) [OF s2 i2] train_test_split_Inr [OF s2]
  show ?thesis
    using a b by (simp add: n1 n2 ly i1 i2 y1 y2)
qed

theorem n_estimators_noninterference_witness:
  "fst (feature_selection_and_split toy toy_fs ''wine.csv'' ''out'' 250) = Inr toy_selected_result \<and>
   fst (feature_selection_and_split toy toy_fs ''wine.csv'' ''out'' 251) = Inr toy_selected_result' \<and>
   fst toy_selected_result' \<noteq> fst toy_selected_result \<and>
   df_index (fst (snd (snd toy_selected_result'))) = df_index (fst (snd (snd toy_selected_result))) \<and>
   df_index (fst (snd (snd (snd toy_selected_result')))) =
     df_index (fst (snd (snd (snd toy_selected_result))))"
proof -
  have h1: "fst (feature_selection_and_split toy toy_fs ''wine.csv'' ''out'' 250) =
      Inr toy_selected_result"
    by code_simp
  have h2: "fst (feature_selection_and_split toy toy_fs ''wine.csv'' ''out'' 251) =
      Inr toy_selected_result'"
    by code_simp
  have d: "fst toy_selected_result' \<noteq> fst toy_selected_result"
    by code_simp
  have e1: "fst (feature_selection_and_split toy toy_fs ''wine.csv'' ''out'' 250) =
      Inr (fst toy_selected_result, fst (snd toy_selected_result),
           fst (snd (snd toy_selected_result)), fst (snd (snd (snd toy_selected_result))),
           fst (snd (snd (snd (snd toy_selected_result)))),
           snd (snd (snd (snd (snd toy_selected_result)))))"
    using h1 by simp
  have e2: "fst (feature_selection_and_split toy toy_fs ''wine.csv'' ''out'' 251) =
      Inr (fst toy_selected_result', fst (snd toy_selected_result'),
           fst (snd (snd toy_selected_result')), fst (snd (snd (snd toy_selected_result'))),
           fst (snd (snd (snd (snd toy_selected_result')))),
           snd (snd (snd (snd (snd toy_selected_result')))))"
    using h2 by simp
  from n_estimators_noninterference [OF e1 e2] h1 h2 d show ?thesis
    by simp
qed

end
